theory Spec2Isabelle
  imports Complex_Main "HOL-Library.Sublist"
begin

section \<open>Data model of main.go\<close>

text \<open>
  Go strings are byte sequences, so they are modelled as \<^typ>\<open>string\<close> (a list of 8-bit
  characters). The non-ASCII string literals of main.go are written out byte by byte, exactly as
  they stand in the source file.

  A \<open>float64\<close> is represented by the rational number it denotes. Only finite values reach the
  functions below: JSON has no literal for NaN or an infinity, and \<open>strconv.ParseFloat\<close> reports
  a range error instead of returning an infinity. On finite values Go's \<open>==\<close> is equality of
  the denoted numbers (negative zero equals zero), which is HOL equality on \<^typ>\<open>rat\<close>.
  A Go \<open>int\<close> is 64 bits wide; no arithmetic is done on the integers of a reading (they are
  compared and printed), so they are modelled as \<^typ>\<open>int\<close>; the range only matters in
  \<open>strconv.Atoi\<close>, where it is written out.
\<close>

type_synonym float64 = rat

record SwitchBotDevice =
  DeviceID :: string
  DeviceType :: string
  DeviceName :: string

record SwitchBotDeviceStatus =
  Battery :: "int option"
  Temperature :: "float64 option"
  Humidity :: "float64 option"
  CO2 :: "int option"

record SwitchBotDeviceListBody =
  DeviceList :: "SwitchBotDevice list"

record MastodonPost =
  Content :: string

subsection \<open>String literals of the source\<close>

definition degreeSuffix :: string where
  "degreeSuffix = [CHR 0xC3, CHR 0x82, CHR 0xE2, CHR 0x88, CHR 0xAB, CHR 0xC2, CHR 0xB6]"

definition temperatureLabel :: string where
  "temperatureLabel =
     [CHR 0xC3, CHR 0x8A, CHR 0xE2, CHR 0x88, CHR 0x8F, CHR 0xC2, CHR 0xA9] @ degreeSuffix"

definition humidityLabel :: string where
  "humidityLabel = [CHR 0xC3, CHR 0x8A, CHR 0xCF, CHR 0x80, CHR 0xC3, CHR 0xB8] @ degreeSuffix"

definition alertIcon :: string where
  "alertIcon = [CHR 0xEF, CHR 0xA3, CHR 0xBF, CHR 0xC3, CHR 0xBC, CHR 0xC3, CHR 0xAE,
                CHR 0xE2, CHR 0x80, CHR 0xA2]"

definition cautionIcon :: string where
  "cautionIcon = [CHR 0xEF, CHR 0xA3, CHR 0xBF, CHR 0xC3, CHR 0xBC, CHR 0xC3, CHR 0xAD,
                  CHR 0xC2, CHR 0xAE]"

definition normalIcon :: string where
  "normalIcon = [CHR 0xEF, CHR 0xA3, CHR 0xBF, CHR 0xC3, CHR 0xBC, CHR 0xC3, CHR 0xA5,
                 CHR 0xE2, CHR 0x89, CHR 0xA5]"

definition warningEmoji :: string where
  "warningEmoji = [CHR 0xE2, CHR 0x80, CHR 0x9A, CHR 0xC3, CHR 0xB6, CHR 0xE2, CHR 0x80,
                   CHR 0xA0, CHR 0xC3, CHR 0x94, CHR 0xE2, CHR 0x88, CHR 0x8F, CHR 0xC3, CHR 0xA8]"

definition batteryEmoji :: string where
  "batteryEmoji = [CHR 0xEF, CHR 0xA3, CHR 0xBF, CHR 0xC3, CHR 0xBC, CHR 0xC3, CHR 0xAE,
                   CHR 0xC3, CHR 0xA3]"

section \<open>Library functions the source relies on\<close>

subsection \<open>Decimal digits\<close>

definition isDigit :: "char \<Rightarrow> bool" where
  "isDigit c = (c \<in> set ''0123456789'')"

definition digitVal :: "char \<Rightarrow> int" where
  "digitVal c = of_char c - 48"

definition digitsVal :: "string \<Rightarrow> int" where
  "digitsVal s = foldl (\<lambda>a c. 10 * a + digitVal c) 0 s"

definition digitChar :: "int \<Rightarrow> char" where
  "digitChar d = char_of (48 + d)"

text \<open>The decimal numeral of a non-negative integer, most significant digit first.\<close>

function decDigits :: "int \<Rightarrow> string" where
  "decDigits n = (if n < 10 then [digitChar n] else decDigits (n div 10) @ [digitChar (n mod 10)])"
  by pat_completeness auto
termination
  by (relation "measure nat") auto

declare decDigits.simps [simp del]

text \<open>The verb \<open>%d\<close> of package fmt on an \<open>int\<close>.\<close>

definition fmt_d :: "int \<Rightarrow> string" where
  "fmt_d i = (if i < 0 then ''-'' @ decDigits (- i) else decDigits i)"

subsection \<open>Rounding to the nearest, ties to even\<close>

text \<open>\<open>roundHalfEven p q\<close> is the integer nearest to \<open>p / q\<close>, for \<open>p \<ge> 0\<close> and \<open>q > 0\<close>.\<close>

definition roundHalfEven :: "int \<Rightarrow> int \<Rightarrow> int" where
  "roundHalfEven p q =
     (let f = p div q; r = p mod q in
      if 2 * r < q then f
      else if q < 2 * r then f + 1
      else if even f then f else f + 1)"

text \<open>
  The verb \<open>%.1f\<close> on a \<open>float64\<close>: the exact value rounded to one decimal place (ties to
  even), with a minus sign for a negative value. (For the float negative zero, which the
  representation identifies with zero, Go prints \<open>-0.0\<close>.)
\<close>

definition fmt_f1 :: "float64 \<Rightarrow> string" where
  "fmt_f1 x =
     (let (p, q) = quotient_of \<bar>x\<bar>;
          t = roundHalfEven (10 * p) q
      in (if x < 0 then ''-'' else []) @ decDigits (t div 10) @ ''.'' @ [digitChar (t mod 10)])"

subsection \<open>strconv.ParseFloat and strconv.Atoi\<close>

definition pow2 :: "int \<Rightarrow> rat" where
  "pow2 e = (if 0 \<le> e then 2 ^ nat e else 1 / 2 ^ nat (- e))"

text \<open>The number of binary digits of a non-negative integer.\<close>

function bitLen :: "int \<Rightarrow> int" where
  "bitLen n = (if n \<le> 0 then 0 else 1 + bitLen (n div 2))"
  by pat_completeness auto
termination
  by (relation "measure nat") auto

declare bitLen.simps [simp del]

text \<open>
  \<open>floorLog2 p q\<close> is the largest \<open>e\<close> with \<open>2 ^ e \<le> p / q\<close>, for positive \<open>p\<close> and \<open>q\<close>:
  it is the difference of the bit lengths or one less.
\<close>

definition floorLog2 :: "int \<Rightarrow> int \<Rightarrow> int" where
  "floorLog2 p q =
     (let e = bitLen p - bitLen q in
      if (if 0 \<le> e then q * 2 ^ nat e \<le> p else q \<le> p * 2 ^ nat (- e)) then e else e - 1)"

text \<open>
  The IEEE 754 binary64 number nearest to \<open>p / q\<close> (ties to even), for \<open>p \<ge> 0\<close> and
  \<open>q > 0\<close>: 53 bits of precision, least exponent \<open>-1074\<close>; \<open>None\<close> when the rounded value
  is out of range, where ParseFloat returns an infinity together with a range error.
\<close>

definition roundFloat64 :: "int \<Rightarrow> int \<Rightarrow> float64 option" where
  "roundFloat64 p q =
     (if p = 0 then Some 0
      else let e = max (floorLog2 p q - 52) (- 1074);
               m = (if 0 \<le> e then roundHalfEven p (q * 2 ^ nat e)
                    else roundHalfEven (p * 2 ^ nat (- e)) q)
           in if 0 \<le> e \<and> 2 ^ 1024 \<le> m * 2 ^ nat e then None else Some (of_int m * pow2 e))"

text \<open>
  \<open>strconv.ParseFloat(s, 64)\<close> on the strings the source passes to it, which consist of
  decimal digits and dots (the group \<open>[\d.]+\<close>): digits with at most one dot and at least
  one digit are a number, rounded to the nearest \<open>float64\<close>; anything else is a syntax error.
  \<open>None\<close> stands for a non-nil error.
\<close>

definition ParseFloat :: "string \<Rightarrow> float64 option" where
  "ParseFloat s =
     (let ip = takeWhile (\<lambda>c. c \<noteq> CHR ''.'') s;
          fp = drop (Suc (length ip)) s
      in if \<not> list_all isDigit (ip @ fp) \<or> ip @ fp = [] then None
         else roundFloat64 (digitsVal (ip @ fp)) (10 ^ length fp))"

text \<open>
  \<open>strconv.Atoi\<close> on the strings the source passes to it, which consist of decimal digits (the
  group \<open>\d+\<close>): the value, or a range error when it does not fit a 64-bit \<open>int\<close>.
\<close>

definition Atoi :: "string \<Rightarrow> int option" where
  "Atoi s =
     (if s = [] \<or> \<not> list_all isDigit s then None
      else if 9223372036854775807 < digitsVal s then None
      else Some (digitsVal s))"

subsection \<open>The regular expressions of the source\<close>

text \<open>
  The three patterns handed to \<open>regexp.MustCompile\<close> in \<open>isRepeated\<close> have one shape: a
  literal, one group that is a non-empty greedy run over a character class, and a literal.
  \<open>\d\<close> is the class of the ASCII digits. All the literals and classes concerned are matched
  byte by byte.
\<close>

datatype charClass = Digits | DigitsOrDot

datatype regex = Regex string charClass string

fun inClass :: "charClass \<Rightarrow> char \<Rightarrow> bool" where
  "inClass Digits c = isDigit c"
| "inClass DigitsOrDot c = (isDigit c \<or> c = CHR ''.'')"

definition temperaturePattern :: regex where
  "temperaturePattern = Regex (temperatureLabel @ '': '') DigitsOrDot degreeSuffix"

definition humidityPattern :: regex where
  "humidityPattern = Regex (humidityLabel @ '': '') DigitsOrDot ''%''"

definition co2Pattern :: regex where
  "co2Pattern = Regex ''CO2: '' Digits ''ppm''"

text \<open>
  The greedy group tries its longest run first and gives characters back one at a time until
  the closing literal follows.
\<close>

fun groupEnd :: "string \<Rightarrow> string \<Rightarrow> nat \<Rightarrow> string option" where
  "groupEnd close r 0 = None"
| "groupEnd close r (Suc n) =
     (if prefix close (drop (Suc n) r) then Some (take (Suc n) r) else groupEnd close r n)"

fun matchAt :: "regex \<Rightarrow> string \<Rightarrow> string option" where
  "matchAt (Regex lit cls close) s =
     (if prefix lit s
      then (let r = drop (length lit) s in groupEnd close r (length (takeWhile (inClass cls) r)))
      else None)"

text \<open>
  \<open>FindStringSubmatch\<close>: the leftmost match, as the list of the whole match and the group;
  the empty list (Go's nil) when there is no match.
\<close>

fun FindStringSubmatch :: "regex \<Rightarrow> string \<Rightarrow> string list" where
  "FindStringSubmatch (Regex lit cls close) s =
     (case matchAt (Regex lit cls close) s of
        Some g \<Rightarrow> [lit @ g @ close, g]
      | None \<Rightarrow> (case s of [] \<Rightarrow> [] | c # cs \<Rightarrow> FindStringSubmatch (Regex lit cls close) cs))"

section \<open>History parsing and duplicate detection\<close>

definition extractFloatValue :: "string \<Rightarrow> regex \<Rightarrow> float64 option" where
  "extractFloatValue text pattern =
     (let matches = FindStringSubmatch pattern text in
      if length matches < 2 then None else ParseFloat (matches ! 1))"

definition extractIntValue :: "string \<Rightarrow> regex \<Rightarrow> int option" where
  "extractIntValue text pattern =
     (let matches = FindStringSubmatch pattern text in
      if length matches < 2 then None else Atoi (matches ! 1))"

text \<open>A nil pointer is \<open>None\<close>; two pointers of which one is nil are equal when both are.\<close>

definition ptrEquals :: "'a option \<Rightarrow> 'a option \<Rightarrow> bool" where
  "ptrEquals a b =
     (if a = None \<or> b = None then (a = None \<and> b = None) else the a = the b)"

fun isRepeated :: "SwitchBotDeviceStatus \<Rightarrow> string list \<Rightarrow> bool" where
  "isRepeated current [] = True"
| "isRepeated current (msg # previousMessages) =
     (let temp = extractFloatValue msg temperaturePattern;
          hum = extractFloatValue msg humidityPattern;
          co2 = extractIntValue msg co2Pattern
      in if \<not> ptrEquals temp (Temperature current) \<or>
            \<not> ptrEquals hum (Humidity current) \<or>
            \<not> ptrEquals co2 (CO2 current)
         then False
         else isRepeated current previousMessages)"

subsection \<open>The history of a device\<close>

text \<open>
  \<open>htmlTagRe\<close> is \<open><.*?>\<close>: an opening angle bracket, the shortest run of characters
  other than a newline, and a closing angle bracket. \<open>tagEnd\<close> reads on from behind an opening
  bracket and returns what follows the first closing bracket, unless a newline (or the end of
  the text) comes first.
\<close>

fun tagEnd :: "string \<Rightarrow> string option" where
  "tagEnd [] = None"
| "tagEnd (c # cs) =
     (if c = CHR ''>'' then Some cs
      else if c = CHR 0x0A then None
      else tagEnd cs)"

lemma tagEnd_shorter: "tagEnd cs = Some r \<Longrightarrow> length r < Suc (length cs)"
  by (induction cs) (auto split: if_splits)

text \<open>\<open>ReplaceAllString(input, "")\<close>: every match, leftmost first, is cut out.\<close>

function stripHTMLTags :: "string \<Rightarrow> string" where
  "stripHTMLTags [] = []"
| "stripHTMLTags (c # cs) =
     (if c = CHR ''<'' then
        (case tagEnd cs of
           Some r \<Rightarrow> stripHTMLTags r
         | None \<Rightarrow> c # stripHTMLTags cs)
      else c # stripHTMLTags cs)"
  by pat_completeness auto
termination
  by (relation "measure length") (auto dest: tagEnd_shorter)

text \<open>
  \<open>strings.Index(s, substr)\<close>: the index of the first instance of \<open>substr\<close> in \<open>s\<close>, or
  \<open>-1\<close>. \<open>indexFrom\<close> scans the rest of the text, \<open>k\<close> being the number of bytes passed.
\<close>

fun indexFrom :: "int \<Rightarrow> string \<Rightarrow> string \<Rightarrow> int" where
  "indexFrom k [] substr = (if substr = [] then k else - 1)"
| "indexFrom k (c # cs) substr =
     (if prefix substr (c # cs) then k else indexFrom (k + 1) cs substr)"

definition strings_Index :: "string \<Rightarrow> string \<Rightarrow> int" where
  "strings_Index s substr = indexFrom 0 s substr"

definition makeDeviceHeader :: "string \<Rightarrow> string" where
  "makeDeviceHeader deviceName = ''# '' @ deviceName"

subsection \<open>Errors\<close>

text \<open>
  An error of the standard library or of a remote service is \<open>External\<close> with its message;
  the other constructors are the errors main.go builds with \<open>fmt.Errorf\<close>, one for each format
  string, with the wrapped error or the values the format takes.
\<close>

datatype error =
    External string
  | RequestCreationFailed error
  | HTTPRequestFailed error
  | ReadingResponseFailed error
  | UnmarshalFailed error string
  | MaxRetriesReached string
  | UnexpectedStatusCode int string
  | Unreachable
  | ExtractRecentMessagesFailed error
  | LoadAWSConfigFailed error
  | PutMetricDataFailed error
  | LoadConfigError error
  | FetchDevicesError error
  | FetchRecentMastodonPostsError error

fun extractMessagesLoop :: "string \<Rightarrow> MastodonPost list \<Rightarrow> string list \<Rightarrow> string list" where
  "extractMessagesLoop deviceName [] messages = messages"
| "extractMessagesLoop deviceName (post # posts) messages =
     (let text = stripHTMLTags (Content post);
          idx = strings_Index text (makeDeviceHeader deviceName)
      in if idx \<noteq> - 1
         then extractMessagesLoop deviceName posts (messages @ [drop (nat idx) text])
         else extractMessagesLoop deviceName posts messages)"

definition extractRecentMessagesForDevice :: "string \<Rightarrow> MastodonPost list \<Rightarrow> error + string list" where
  "extractRecentMessagesForDevice deviceName posts = Inr (extractMessagesLoop deviceName posts [])"

definition batteryStatusEmoji ::
  "SwitchBotDevice \<Rightarrow> MastodonPost list \<Rightarrow> SwitchBotDeviceStatus \<Rightarrow> error + string" where
  "batteryStatusEmoji device posts status =
     (case extractRecentMessagesForDevice (DeviceName device) posts of
        Inl err \<Rightarrow> Inl (ExtractRecentMessagesFailed err)
      | Inr previousMessages \<Rightarrow>
          if isRepeated status previousMessages then Inr warningEmoji else Inr batteryEmoji)"

section \<open>The Backoff Fetcher\<close>

record 'b SwitchBotResponse =
  StatusCode :: int
  Message :: string
  Body :: 'b

text \<open>
  What the network does with one GET request: \<open>http.NewRequest\<close> fails, the client's \<open>Do\<close>
  fails, reading the body fails, or the body arrives.
\<close>

datatype httpResult =
    NewRequestFails error
  | DoFails error
  | ReadAllFails error
  | BodyBytes string

text \<open>
  The state of one call of \<open>requestWithBackoff\<close>: the struct behind the pointer \<open>out\<close>, the
  number of iterations of the loop begun so far, and the arguments of \<open>time.Sleep\<close> so far,
  in seconds.
\<close>

record 'b backoffState =
  outStruct :: "'b SwitchBotResponse"
  attempts :: nat
  slept :: "nat list"

text \<open>
  The loop of \<open>requestWithBackoff\<close>, from iteration \<open>attempt\<close> on. Its parameters stand for
  what the source takes from outside: \<open>unmarshal\<close> is \<open>json.Unmarshal\<close> into the struct
  behind \<open>out\<close> (it is given the struct as the earlier attempts left it, and returns its error,
  if any, and the struct as the decoding left it), and \<open>net attempt\<close> is what the network
  does with the request of iteration \<open>attempt\<close>. The URL and the headers only reach the
  network and are therefore not modelled; neither is the notice printed before each wait.
\<close>

function requestLoop ::
  "(string \<Rightarrow> 'b SwitchBotResponse \<Rightarrow> error option \<times> 'b SwitchBotResponse) \<Rightarrow> (nat \<Rightarrow> httpResult) \<Rightarrow>
   nat \<Rightarrow> 'b backoffState \<Rightarrow> error option \<times> 'b backoffState" where
  "requestLoop unmarshal net attempt st =
     (if attempt < 5 then
        (let st1 = st\<lparr>attempts := attempts st + 1\<rparr> in
         case net attempt of
           NewRequestFails err \<Rightarrow> (Some (RequestCreationFailed err), st1)
         | DoFails err \<Rightarrow> (Some (HTTPRequestFailed err), st1)
         | ReadAllFails err \<Rightarrow> (Some (ReadingResponseFailed err), st1)
         | BodyBytes bodyBytes \<Rightarrow>
             (case unmarshal bodyBytes (outStruct st1) of
                (Some err, out) \<Rightarrow>
                  (Some (UnmarshalFailed err bodyBytes), st1\<lparr>outStruct := out\<rparr>)
              | (None, out) \<Rightarrow>
                  (let st2 = st1\<lparr>outStruct := out\<rparr> in
                   if StatusCode out = 100 then (None, st2)
                   else if StatusCode out = 190 then
                     (if attempt < 4
                      then requestLoop unmarshal net (attempt + 1)
                             (st2\<lparr>slept := slept st2 @ [push_bit attempt 1]\<rparr>)
                      else (Some (MaxRetriesReached (Message out)), st2))
                   else (Some (UnexpectedStatusCode (StatusCode out) (Message out)), st2))))
      else (Some Unreachable, st))"
  by pat_completeness auto
termination
  by (relation "measure (\<lambda>(unmarshal, net, attempt, st). 5 - attempt)") auto

declare requestLoop.simps [simp del]

definition requestWithBackoff ::
  "(string \<Rightarrow> 'b SwitchBotResponse \<Rightarrow> error option \<times> 'b SwitchBotResponse) \<Rightarrow> (nat \<Rightarrow> httpResult) \<Rightarrow>
   'b SwitchBotResponse \<Rightarrow> error option \<times> 'b backoffState" where
  "requestWithBackoff unmarshal net out =
     requestLoop unmarshal net 0 \<lparr>outStruct = out, attempts = 0, slept = []\<rparr>"

text \<open>The zero values of the structs, as \<open>var resp\<close> declares them.\<close>

definition zeroStatus :: SwitchBotDeviceStatus where
  "zeroStatus = \<lparr>Battery = None, Temperature = None, Humidity = None, CO2 = None\<rparr>"

definition zeroResponse :: "'b \<Rightarrow> 'b SwitchBotResponse" where
  "zeroResponse body = \<lparr>StatusCode = 0, Message = [], Body = body\<rparr>"

definition fetchDeviceStatus ::
  "(string \<Rightarrow> SwitchBotDeviceStatus SwitchBotResponse \<Rightarrow> error option \<times> SwitchBotDeviceStatus SwitchBotResponse) \<Rightarrow>
   (nat \<Rightarrow> httpResult) \<Rightarrow> SwitchBotDevice \<Rightarrow> error + SwitchBotDeviceStatus" where
  "fetchDeviceStatus unmarshal net device =
     (case requestWithBackoff unmarshal net (zeroResponse zeroStatus) of
        (Some err, st) \<Rightarrow> Inl err
      | (None, st) \<Rightarrow> Inr (Body (outStruct st)))"

definition fetchDevices ::
  "(string \<Rightarrow> SwitchBotDeviceListBody SwitchBotResponse \<Rightarrow>
      error option \<times> SwitchBotDeviceListBody SwitchBotResponse) \<Rightarrow>
   (nat \<Rightarrow> httpResult) \<Rightarrow> error + SwitchBotDevice list" where
  "fetchDevices unmarshal net =
     (case requestWithBackoff unmarshal net (zeroResponse \<lparr>DeviceList = []\<rparr>) of
        (Some err, st) \<Rightarrow> Inl err
      | (None, st) \<Rightarrow> Inr (DeviceList (Body (outStruct st))))"

section \<open>Metrics\<close>

datatype standardUnit = StandardUnitCount | StandardUnitPercent

record MetricDatum =
  MetricName :: string
  DimensionDeviceId :: string
  MetricValue :: float64
  MetricUnit :: standardUnit

text \<open>
  \<open>PutMetric\<close>: \<open>loadAWS\<close> is the result of \<open>awsconfig.LoadDefaultConfig\<close> and \<open>putData\<close>
  that of \<open>PutMetricData\<close> on the data handed to it (the time stamp of the data is left out).
\<close>

definition PutMetric ::
  "error option \<Rightarrow> (MetricDatum list \<Rightarrow> error option) \<Rightarrow> SwitchBotDevice \<Rightarrow>
   SwitchBotDeviceStatus \<Rightarrow> error option" where
  "PutMetric loadAWS putData device status =
     (case loadAWS of
        Some err \<Rightarrow> Some (LoadAWSConfigFailed err)
      | None \<Rightarrow>
          (let metricData = [];
               metricData =
                 (case Temperature status of
                    None \<Rightarrow> metricData
                  | Some t \<Rightarrow> metricData @
                      [\<lparr>MetricName = ''Temperature'', DimensionDeviceId = DeviceID device,
                        MetricValue = t, MetricUnit = StandardUnitCount\<rparr>]);
               metricData =
                 (case Humidity status of
                    None \<Rightarrow> metricData
                  | Some h \<Rightarrow> metricData @
                      [\<lparr>MetricName = ''Humidity'', DimensionDeviceId = DeviceID device,
                        MetricValue = h, MetricUnit = StandardUnitPercent\<rparr>]);
               metricData =
                 (case CO2 status of
                    None \<Rightarrow> metricData
                  | Some c \<Rightarrow> metricData @
                      [\<lparr>MetricName = ''CO2'', DimensionDeviceId = DeviceID device,
                        MetricValue = of_int c, MetricUnit = StandardUnitCount\<rparr>])
           in if length metricData = 0 then None
              else (case putData metricData of
                      Some err \<Rightarrow> Some (PutMetricDataFailed err)
                    | None \<Rightarrow> None)))"

section \<open>The Message Composer\<close>

text \<open>
  The second half of \<open>generateStatusMessage\<close>, from \<open>var b strings.Builder\<close> to the
  return: the builder is the string written so far.
\<close>

definition composeMessage ::
  "SwitchBotDevice \<Rightarrow> MastodonPost list \<Rightarrow> SwitchBotDeviceStatus \<Rightarrow> error + string" where
  "composeMessage device posts status =
     (let b = makeDeviceHeader (DeviceName device) in
      case (case Battery status of
              None \<Rightarrow> Inr b
            | Some battery \<Rightarrow>
                (case batteryStatusEmoji device posts status of
                   Inl err \<Rightarrow> Inl err
                 | Inr emoji \<Rightarrow> Inr (b @ '' ('' @ emoji @ fmt_d battery @ ''%)''))) of
        Inl err \<Rightarrow> Inl err
      | Inr b \<Rightarrow>
          (let b = b @ [CHR 0x0A];
               b = (case Temperature status of
                      None \<Rightarrow> b
                    | Some t \<Rightarrow> b @ temperatureLabel @ '': '' @ fmt_f1 t @ degreeSuffix @ [CHR 0x0A]);
               b = (case Humidity status of
                      None \<Rightarrow> b
                    | Some h \<Rightarrow> b @ humidityLabel @ '': '' @ fmt_f1 h @ ''%'' @ [CHR 0x0A]);
               b = (case CO2 status of
                      None \<Rightarrow> b
                    | Some c \<Rightarrow>
                        (let icon = (if c \<ge> 1500 then alertIcon
                                     else if c \<ge> 1000 then cautionIcon
                                     else normalIcon)
                         in b @ ''CO2: '' @ fmt_d c @ ''ppm '' @ icon @ [CHR 0x0A]))
           in Inr b))"

text \<open>What the program writes with package log.\<close>

datatype logLine =
    LogMetricsFailed error
  | LogGenerated string
  | LogPostSuccessful string

text \<open>
  Everything one call of \<open>generateStatusMessage\<close> takes from outside: the JSON decoder, the
  network's answers to the status requests, and the two AWS calls.
\<close>

record deviceEnv =
  unmarshalStatus ::
    "string \<Rightarrow> SwitchBotDeviceStatus SwitchBotResponse \<Rightarrow>
     error option \<times> SwitchBotDeviceStatus SwitchBotResponse"
  statusNet :: "nat \<Rightarrow> httpResult"
  loadAWS :: "error option"
  putData :: "MetricDatum list \<Rightarrow> error option"

definition generateStatusMessage ::
  "deviceEnv \<Rightarrow> SwitchBotDevice \<Rightarrow> MastodonPost list \<Rightarrow> (error + string) \<times> logLine list" where
  "generateStatusMessage env device posts =
     (case fetchDeviceStatus (unmarshalStatus env) (statusNet env) device of
        Inl err \<Rightarrow> (Inl err, [])
      | Inr status \<Rightarrow>
          (let logged = (case PutMetric (loadAWS env) (putData env) device status of
                           Some err \<Rightarrow> [LogMetricsFailed err]
                         | None \<Rightarrow> [])
           in (composeMessage device posts status, logged)))"

section \<open>The Pipeline Orchestrator\<close>

definition targetDeviceTypes :: "string \<rightharpoonup> unit" where
  "targetDeviceTypes = [''Meter'' \<mapsto> (), ''MeterPro(CO2)'' \<mapsto> ()]"

definition isTargetDevice :: "string \<Rightarrow> bool" where
  "isTargetDevice deviceType = (targetDeviceTypes deviceType \<noteq> None)"

text \<open>\<open>strings.Join\<close>.\<close>

fun strings_Join :: "string list \<Rightarrow> string \<Rightarrow> string" where
  "strings_Join [] sep = []"
| "strings_Join [x] sep = x"
| "strings_Join (x # y # ys) sep = x @ sep @ strings_Join (y # ys) sep"

text \<open>
  Everything one run of \<open>handler\<close> takes from outside. \<open>loadConfig\<close>,
  \<open>fetchRecentMastodonPosts\<close> and \<open>postToMastodon\<close> are single calls whose results are
  given here; \<open>deviceEnvs i\<close> is the outside world during the call of \<open>generateStatusMessage\<close>
  for the device at position \<open>i\<close> of the directory.
\<close>

record handlerEnv =
  loadConfigResult :: "error option"
  unmarshalDevices ::
    "string \<Rightarrow> SwitchBotDeviceListBody SwitchBotResponse \<Rightarrow>
     error option \<times> SwitchBotDeviceListBody SwitchBotResponse"
  devicesNet :: "nat \<Rightarrow> httpResult"
  recentPostsResult :: "error + MastodonPost list"
  deviceEnvs :: "nat \<Rightarrow> deviceEnv"
  postToMastodon :: "string \<Rightarrow> error option"

text \<open>The state of a run: the slice \<open>messages\<close>, the log, and the texts handed to
  \<open>postToMastodon\<close>.\<close>

record runState =
  messages :: "string list"
  logged :: "logLine list"
  published :: "string list"

text \<open>The loop over the devices; \<open>i\<close> is the position of the next device.\<close>

fun deviceLoop ::
  "handlerEnv \<Rightarrow> MastodonPost list \<Rightarrow> nat \<Rightarrow> SwitchBotDevice list \<Rightarrow> runState \<Rightarrow> runState" where
  "deviceLoop env posts i [] st = st"
| "deviceLoop env posts i (device # devices) st =
     (if \<not> isTargetDevice (DeviceType device) then deviceLoop env posts (i + 1) devices st
      else
        (case generateStatusMessage (deviceEnvs env i) device posts of
           (Inl err, lg) \<Rightarrow> deviceLoop env posts (i + 1) devices (st\<lparr>logged := logged st @ lg\<rparr>)
         | (Inr message, lg) \<Rightarrow>
             deviceLoop env posts (i + 1) devices
               (st\<lparr>logged := logged st @ lg @ [LogGenerated message],
                   messages := messages st @ [message]\<rparr>)))"

definition emptyRun :: runState where
  "emptyRun = \<lparr>messages = [], logged = [], published = []\<rparr>"

definition handler :: "handlerEnv \<Rightarrow> error option \<times> runState" where
  "handler env =
     (case loadConfigResult env of
        Some err \<Rightarrow> (Some (LoadConfigError err), emptyRun)
      | None \<Rightarrow>
          (case fetchDevices (unmarshalDevices env) (devicesNet env) of
             Inl err \<Rightarrow> (Some (FetchDevicesError err), emptyRun)
           | Inr devices \<Rightarrow>
               (case recentPostsResult env of
                  Inl err \<Rightarrow> (Some (FetchRecentMastodonPostsError err), emptyRun)
                | Inr posts \<Rightarrow>
                    (let st = deviceLoop env posts 0 devices emptyRun in
                     if length (messages st) > 0
                     then (let text = strings_Join (messages st) [CHR 0x0A];
                               st = st\<lparr>published := published st @ [text]\<rparr>
                           in case postToMastodon env text of
                                Some err \<Rightarrow> (Some err, st)
                              | None \<Rightarrow> (None, st\<lparr>logged := logged st @ [LogPostSuccessful text]\<rparr>))
                     else (None, st)))))"

section \<open>The specification's vocabulary\<close>

text \<open>
  The numeric fields recovered from one history entry (the specification's
  ParsedHistoricalState), by the three extractions of \<open>isRepeated\<close>, and the three fields of a
  reading they are compared with.
\<close>

definition parsedState :: "string \<Rightarrow> float64 option \<times> float64 option \<times> int option" where
  "parsedState msg =
     (extractFloatValue msg temperaturePattern, extractFloatValue msg humidityPattern,
      extractIntValue msg co2Pattern)"

definition comparedFields ::
  "SwitchBotDeviceStatus \<Rightarrow> float64 option \<times> float64 option \<times> int option" where
  "comparedFields status = (Temperature status, Humidity status, CO2 status)"

text \<open>
  The matching entries of a device in the words of the specification: for each post whose
  text, stripped of its tags, contains the header token as a substring, the suffix of that text
  from the first occurrence of the token. \<open>rev (suffixes t)\<close> lists the suffixes of \<open>t\<close> by
  their starting position, the whole text first.
\<close>

definition firstOccurrenceSuffix :: "string \<Rightarrow> string \<Rightarrow> string option" where
  "firstOccurrenceSuffix h t = List.find (prefix h) (rev (suffixes t))"

definition matchingEntries :: "string \<Rightarrow> MastodonPost list \<Rightarrow> string list" where
  "matchingEntries deviceName posts =
     List.map_filter (\<lambda>post. firstOccurrenceSuffix (makeDeviceHeader deviceName)
                               (stripHTMLTags (Content post))) posts"

text \<open>
  The report of a device in the words of the specification: the header line, with the battery
  suffix when the reading has a battery figure, and one line for each field that is present.
  The tier of a CO2 figure is "normal" below 1000 ppm, "caution" from 1000 ppm and below
  1500 ppm, and "alert" from 1500 ppm.
\<close>

definition headerLine ::
  "SwitchBotDevice \<Rightarrow> MastodonPost list \<Rightarrow> SwitchBotDeviceStatus \<Rightarrow> string" where
  "headerLine device posts status =
     makeDeviceHeader (DeviceName device) @
     (case Battery status of
        None \<Rightarrow> []
      | Some battery \<Rightarrow>
          '' ('' @ (if isRepeated status (matchingEntries (DeviceName device) posts)
                    then warningEmoji else batteryEmoji) @ fmt_d battery @ ''%)'')"

definition co2Tier :: "int \<Rightarrow> string" where
  "co2Tier c = (if c < 1000 then normalIcon else if c < 1500 then cautionIcon else alertIcon)"

definition temperatureLine :: "float64 \<Rightarrow> string" where
  "temperatureLine t = temperatureLabel @ '': '' @ fmt_f1 t @ degreeSuffix @ [CHR 0x0A]"

definition humidityLine :: "float64 \<Rightarrow> string" where
  "humidityLine h = humidityLabel @ '': '' @ fmt_f1 h @ ''%'' @ [CHR 0x0A]"

definition co2Line :: "int \<Rightarrow> string" where
  "co2Line c = ''CO2: '' @ fmt_d c @ ''ppm '' @ co2Tier c @ [CHR 0x0A]"

definition fieldLines :: "SwitchBotDeviceStatus \<Rightarrow> string" where
  "fieldLines status =
     (case Temperature status of None \<Rightarrow> [] | Some t \<Rightarrow> temperatureLine t) @
     (case Humidity status of None \<Rightarrow> [] | Some h \<Rightarrow> humidityLine h) @
     (case CO2 status of None \<Rightarrow> [] | Some c \<Rightarrow> co2Line c)"

text \<open>
  The messages a run produces, in the words of the specification: for each device of a
  recognized type, in the order of the directory, the message composed for it, unless
  \<open>generateStatusMessage\<close> fails.
\<close>

definition producedMessages ::
  "handlerEnv \<Rightarrow> MastodonPost list \<Rightarrow> nat \<Rightarrow> SwitchBotDevice list \<Rightarrow> string list" where
  "producedMessages env posts i devices =
     List.map_filter
       (\<lambda>(k, device).
          if isTargetDevice (DeviceType device)
          then (case fst (generateStatusMessage (deviceEnvs env k) device posts) of
                  Inl err \<Rightarrow> None
                | Inr message \<Rightarrow> Some message)
          else None)
       (List.enumerate i devices)"

section \<open>Sample data\<close>

text \<open>
  A device, two readings that differ in the temperature, and two history entries as the
  Message Composer writes them for a device without battery figure, with temperatures 23.5 and
  24.5 and humidity 45.5.
\<close>

definition livingRoom :: SwitchBotDevice where
  "livingRoom = \<lparr>DeviceID = ''A'', DeviceType = ''Meter'', DeviceName = ''Living Room''\<rparr>"

definition reading235 :: SwitchBotDeviceStatus where
  "reading235 = \<lparr>Battery = None, Temperature = Some (47 / 2), Humidity = Some (91 / 2),
                  CO2 = None\<rparr>"

definition reading245 :: SwitchBotDeviceStatus where
  "reading245 = \<lparr>Battery = None, Temperature = Some (49 / 2), Humidity = Some (91 / 2),
                  CO2 = None\<rparr>"

definition entry235 :: string where
  "entry235 = ''# Living Room'' @ [CHR 0x0A] @ temperatureLabel @ '': 23.5'' @ degreeSuffix @
              [CHR 0x0A] @ humidityLabel @ '': 45.5%'' @ [CHR 0x0A]"

definition entry245 :: string where
  "entry245 = ''# Living Room'' @ [CHR 0x0A] @ temperatureLabel @ '': 24.5'' @ degreeSuffix @
              [CHR 0x0A] @ humidityLabel @ '': 45.5%'' @ [CHR 0x0A]"

text \<open>
  A stand-in for \<open>json.Unmarshal\<close> on three bodies: \<open>busy\<close> sets status 190, \<open>denied\<close>
  sets status 250, \<open>broken\<close> is not JSON, and any other body sets status 100 and the reading
  \<open>reading235\<close>. Two networks: one that answers \<open>busy\<close> four times and then \<open>ok\<close>, one
  that always answers \<open>busy\<close>.
\<close>

definition sampleUnmarshal ::
  "string \<Rightarrow> SwitchBotDeviceStatus SwitchBotResponse \<Rightarrow>
     error option \<times> SwitchBotDeviceStatus SwitchBotResponse" where
  "sampleUnmarshal bodyBytes out =
     (if bodyBytes = ''busy'' then (None, out\<lparr>StatusCode := 190, Message := ''busy''\<rparr>)
      else if bodyBytes = ''denied'' then (None, out\<lparr>StatusCode := 250, Message := ''denied''\<rparr>)
      else if bodyBytes = ''broken'' then (Some (External ''invalid character''), out)
      else (None, out\<lparr>StatusCode := 100, Message := ''success'', Body := reading235\<rparr>))"

definition busyFourTimes :: "nat \<Rightarrow> httpResult" where
  "busyFourTimes k = (if k < 4 then BodyBytes ''busy'' else BodyBytes ''ok'')"

definition alwaysBusy :: "nat \<Rightarrow> httpResult" where
  "alwaysBusy k = BodyBytes ''busy''"

definition busyResponse :: "SwitchBotDeviceStatus SwitchBotResponse" where
  "busyResponse = \<lparr>StatusCode = 190, Message = ''busy'', Body = zeroStatus\<rparr>"

definition okResponse :: "SwitchBotDeviceStatus SwitchBotResponse" where
  "okResponse = \<lparr>StatusCode = 100, Message = ''success'', Body = reading235\<rparr>"

definition outsThenOk :: "nat \<Rightarrow> SwitchBotDeviceStatus SwitchBotResponse" where
  "outsThenOk k = (if k = 0 then zeroResponse zeroStatus else if k < 5 then busyResponse
                   else okResponse)"

definition outsBusy :: "nat \<Rightarrow> SwitchBotDeviceStatus SwitchBotResponse" where
  "outsBusy k = (if k = 0 then zeroResponse zeroStatus else busyResponse)"

text \<open>
  A reading of five degrees below zero, with a battery figure; a post in which the section of
  a device without any figure is followed by the section of the living room; and the outside
  world of a run in which every request is answered at once with status 100 (the directory
  holding the given devices, every reading being \<open>reading235\<close>), there are no recent posts,
  and the metrics and the publishing succeed.
\<close>

definition balcony :: SwitchBotDevice where
  "balcony = \<lparr>DeviceID = ''B'', DeviceType = ''Meter'', DeviceName = ''Balcony''\<rparr>"

definition readingMinus5 :: SwitchBotDeviceStatus where
  "readingMinus5 = \<lparr>Battery = Some 85, Temperature = Some (- 5), Humidity = Some (91 / 2),
                     CO2 = None\<rparr>"

definition entryMinus5 :: string where
  "entryMinus5 = ''# Balcony ('' @ warningEmoji @ ''85%)'' @ [CHR 0x0A] @
                 temperatureLabel @ '': -5.0'' @ degreeSuffix @ [CHR 0x0A] @
                 humidityLabel @ '': 45.5%'' @ [CHR 0x0A]"

definition combinedPost :: MastodonPost where
  "combinedPost = \<lparr>Content = ''<p># Hall<br /># Living Room<br />'' @ temperatureLabel @
                   '': 23.5'' @ degreeSuffix @ ''<br />'' @ humidityLabel @ '': 45.5%</p>''\<rparr>"

definition sampleDeviceEnv :: deviceEnv where
  "sampleDeviceEnv = \<lparr>unmarshalStatus = sampleUnmarshal, statusNet = (\<lambda>k. BodyBytes ''ok''),
                      loadAWS = None, putData = (\<lambda>metricData. None)\<rparr>"

definition sampleHandlerEnv :: "SwitchBotDevice list \<Rightarrow> handlerEnv" where
  "sampleHandlerEnv devices =
     \<lparr>loadConfigResult = None,
      unmarshalDevices = (\<lambda>bodyBytes out.
         (None, out\<lparr>StatusCode := 100, Message := ''success'',
                    Body := \<lparr>DeviceList = devices\<rparr>\<rparr>)),
      devicesNet = (\<lambda>k. BodyBytes ''list''),
      recentPostsResult = Inr [],
      deviceEnvs = (\<lambda>i. sampleDeviceEnv),
      postToMastodon = (\<lambda>message. None)\<rparr>"

section \<open>Properties of the Duplicate Detector and the History Parser\<close>

lemma ptrEquals_eq: "ptrEquals a b = (a = b)"
  by (cases a; cases b) (simp_all add: ptrEquals_def)

lemma isRepeated_all:
  "isRepeated current msgs = (\<forall>m\<in>set msgs. parsedState m = comparedFields current)"
  by (induction msgs) (auto simp: ptrEquals_eq parsedState_def comparedFields_def Let_def)

lemma firstOccurrenceSuffix_Nil: "firstOccurrenceSuffix h [] = (if h = [] then Some [] else None)"
  by (simp add: firstOccurrenceSuffix_def)

lemma firstOccurrenceSuffix_Cons:
  "firstOccurrenceSuffix h (c # cs) =
     (if prefix h (c # cs) then Some (c # cs) else firstOccurrenceSuffix h cs)"
  by (simp add: firstOccurrenceSuffix_def)

lemma firstOccurrenceSuffix_suffix: "firstOccurrenceSuffix h t = Some s \<Longrightarrow> suffix s t"
  by (induction t)
     (auto simp: firstOccurrenceSuffix_Nil firstOccurrenceSuffix_Cons suffix_Cons split: if_splits)

lemma firstOccurrenceSuffix_prefix: "firstOccurrenceSuffix h t = Some s \<Longrightarrow> prefix h s"
  by (induction t) (auto simp: firstOccurrenceSuffix_Nil firstOccurrenceSuffix_Cons split: if_splits)

lemma firstOccurrenceSuffix_None: "(firstOccurrenceSuffix h t = None) = (\<not> sublist h t)"
  by (induction t)
     (auto simp: firstOccurrenceSuffix_Nil firstOccurrenceSuffix_Cons sublist_Cons_right)

text \<open>\<open>strings.Index\<close> finds the start of the first suffix that begins with the substring.\<close>

lemma indexFrom_first:
  "0 \<le> k \<Longrightarrow> indexFrom k t h =
     (case firstOccurrenceSuffix h t of None \<Rightarrow> - 1 | Some s \<Rightarrow> k + int (length t - length s))"
proof (induction t arbitrary: k)
  case Nil
  then show ?case by (simp add: firstOccurrenceSuffix_Nil)
next
  case (Cons c cs)
  show ?case
  proof (cases "prefix h (c # cs)")
    case True
    then show ?thesis by (simp add: firstOccurrenceSuffix_Cons)
  next
    case False
    have "0 \<le> k + 1" using Cons.prems by simp
    from Cons.IH[OF this] False show ?thesis
      by (auto simp: firstOccurrenceSuffix_Cons split: option.splits
               dest!: firstOccurrenceSuffix_suffix dest: suffix_length_le)
  qed
qed

lemma drop_to_suffix: "suffix s t \<Longrightarrow> drop (length t - length s) t = s"
  by (auto simp: suffix_def)

lemma extractMessagesLoop_eq:
  "extractMessagesLoop deviceName posts acc = acc @ matchingEntries deviceName posts"
proof (induction posts arbitrary: acc)
  case Nil
  then show ?case by (simp add: matchingEntries_def List.map_filter_simps)
next
  case (Cons p ps)
  show ?case
  proof (cases "firstOccurrenceSuffix (makeDeviceHeader deviceName) (stripHTMLTags (Content p))")
    case None
    then show ?thesis
      using Cons.IH
      by (simp add: strings_Index_def indexFrom_first matchingEntries_def List.map_filter_simps)
  next
    case (Some s)
    then show ?thesis
      using Cons.IH firstOccurrenceSuffix_suffix[OF Some]
      by (simp add: strings_Index_def indexFrom_first matchingEntries_def List.map_filter_simps
                    drop_to_suffix)
  qed
qed

lemma extractRecentMessagesForDevice_eq:
  "extractRecentMessagesForDevice deviceName posts = Inr (matchingEntries deviceName posts)"
  by (simp add: extractRecentMessagesForDevice_def extractMessagesLoop_eq)

lemma matchingEntries_empty:
  "(\<forall>post\<in>set posts. \<not> sublist (makeDeviceHeader deviceName) (stripHTMLTags (Content post)))
   \<Longrightarrow> matchingEntries deviceName posts = []"
  by (induction posts)
     (simp_all add: matchingEntries_def List.map_filter_simps
                    firstOccurrenceSuffix_None[symmetric])

text \<open>
  Claim C1, as the specification states it: when no recent post contains the header token of
  the device, the Duplicate Detector answers "not repeated". The source does the opposite:
  the loop of \<open>isRepeated\<close> over an empty list never runs and the function returns \<open>true\<close>.
  Here a reading with all four fields and no post at all is classified as repeated, and its
  battery figure gets the warning symbol.
\<close>

theorem C1_empty_history_counterexample:
  "isRepeated \<lparr>Battery = Some 85, Temperature = Some (47 / 2), Humidity = Some (91 / 2),
               CO2 = Some 1250\<rparr> []
   \<and> batteryStatusEmoji \<lparr>DeviceID = ''A'', DeviceType = ''Meter'', DeviceName = ''Living Room''\<rparr> []
        \<lparr>Battery = Some 85, Temperature = Some (47 / 2), Humidity = Some (91 / 2),
         CO2 = Some 1250\<rparr> = Inr warningEmoji"
  by (simp add: batteryStatusEmoji_def extractRecentMessagesForDevice_def)

text \<open>
  Claim C1, amended: for every reading and every device, when no recent post contains the
  header token of the device (after the tags are stripped), the list of matching entries is
  empty, the Duplicate Detector answers "repeated", and the battery figure of the device gets
  the warning symbol.
\<close>

theorem C1_empty_history_is_repeated:
  assumes "\<forall>post\<in>set posts.
             \<not> sublist (makeDeviceHeader (DeviceName device)) (stripHTMLTags (Content post))"
  shows "extractRecentMessagesForDevice (DeviceName device) posts = Inr []
         \<and> isRepeated current []
         \<and> batteryStatusEmoji device posts current = Inr warningEmoji"
  using matchingEntries_empty[OF assms]
  by (simp add: batteryStatusEmoji_def extractRecentMessagesForDevice_eq)

theorem C1_empty_history_is_repeated_witness:
  "extractRecentMessagesForDevice ''Living Room'' [\<lparr>Content = ''<p># Kitchen<br />CO2: 800ppm</p>''\<rparr>]
     = Inr []
   \<and> isRepeated \<lparr>Battery = Some 85, Temperature = Some (47 / 2), Humidity = Some (91 / 2),
                 CO2 = Some 1250\<rparr> []
   \<and> batteryStatusEmoji \<lparr>DeviceID = ''A'', DeviceType = ''Meter'', DeviceName = ''Living Room''\<rparr>
        [\<lparr>Content = ''<p># Kitchen<br />CO2: 800ppm</p>''\<rparr>]
        \<lparr>Battery = Some 85, Temperature = Some (47 / 2), Humidity = Some (91 / 2),
         CO2 = Some 1250\<rparr> = Inr warningEmoji"
proof -
  have h: "\<forall>post\<in>set [\<lparr>Content = ''<p># Kitchen<br />CO2: 800ppm</p>''\<rparr>].
             \<not> sublist (makeDeviceHeader (DeviceName
                 \<lparr>DeviceID = ''A'', DeviceType = ''Meter'', DeviceName = ''Living Room''\<rparr>))
               (stripHTMLTags (Content post))"
    by code_simp
  show ?thesis
    using C1_empty_history_is_repeated[OF h] by simp
qed

text \<open>
  Claim C2: for every reading and every non-empty list of matching entries, the Duplicate
  Detector answers "repeated" exactly when the temperature, humidity and CO2 parsed from every
  entry equal those of the reading, under \<open>ptrEquals\<close>: two absent fields are equal, an absent
  and a present one are not, and two present ones are equal exactly when their values are.
  From an answer "repeated", changing one of the three fields of the reading, or replacing an
  entry by one with a different parsed field, turns the answer into "not repeated".
\<close>

theorem C2_repeated_iff_all_entries_equal:
  assumes "msgs \<noteq> []"
  shows "(isRepeated current msgs \<longleftrightarrow>
            (\<forall>m\<in>set msgs.
               ptrEquals (extractFloatValue m temperaturePattern) (Temperature current) \<and>
               ptrEquals (extractFloatValue m humidityPattern) (Humidity current) \<and>
               ptrEquals (extractIntValue m co2Pattern) (CO2 current)))
         \<and> ptrEquals None None
         \<and> \<not> ptrEquals None (Some x) \<and> \<not> ptrEquals (Some x) None
         \<and> (ptrEquals (Some x) (Some y) \<longleftrightarrow> x = y)
         \<and> (isRepeated current msgs \<and> comparedFields current' \<noteq> comparedFields current
              \<longrightarrow> \<not> isRepeated current' msgs)
         \<and> (isRepeated current msgs \<and> i < length msgs \<and> parsedState m' \<noteq> parsedState (msgs ! i)
              \<longrightarrow> \<not> isRepeated current (msgs[i := m']))"
proof -
  have a: "isRepeated current msgs \<longleftrightarrow>
            (\<forall>m\<in>set msgs.
               ptrEquals (extractFloatValue m temperaturePattern) (Temperature current) \<and>
               ptrEquals (extractFloatValue m humidityPattern) (Humidity current) \<and>
               ptrEquals (extractIntValue m co2Pattern) (CO2 current))"
    by (simp add: isRepeated_all ptrEquals_eq parsedState_def comparedFields_def)
  have b: "isRepeated current msgs \<and> comparedFields current' \<noteq> comparedFields current
              \<longrightarrow> \<not> isRepeated current' msgs"
  proof -
    from assms obtain m where "m \<in> set msgs" by (cases msgs) auto
    then show ?thesis unfolding isRepeated_all by metis
  qed
  have c: "isRepeated current msgs \<and> i < length msgs \<and> parsedState m' \<noteq> parsedState (msgs ! i)
              \<longrightarrow> \<not> isRepeated current (msgs[i := m'])"
  proof (intro impI notI, elim conjE)
    assume r: "isRepeated current msgs" and i: "i < length msgs"
      and d: "parsedState m' \<noteq> parsedState (msgs ! i)"
      and r': "isRepeated current (msgs[i := m'])"
    from r i have "parsedState (msgs ! i) = comparedFields current"
      by (simp add: isRepeated_all)
    moreover from i have "m' \<in> set (msgs[i := m'])"
      by (simp add: set_update_memI)
    with r' have "parsedState m' = comparedFields current"
      by (simp add: isRepeated_all)
    ultimately show False using d by simp
  qed
  show ?thesis using a b c by (simp add: ptrEquals_eq)
qed

theorem C2_repeated_iff_all_entries_equal_witness:
  "isRepeated reading235 [entry235]
   \<and> \<not> isRepeated reading245 [entry235]
   \<and> \<not> isRepeated reading235 ([entry235][0 := entry245])"
proof -
  have h: "[entry235] \<noteq> []" by simp
  have r: "isRepeated reading235 [entry235]" by code_simp
  have d1: "comparedFields reading245 \<noteq> comparedFields reading235"
    by (simp add: comparedFields_def reading245_def reading235_def)
  have d2: "parsedState entry245 \<noteq> parsedState ([entry235] ! 0)" by code_simp
  have i: "(0::nat) < length [entry235]" by simp
  note t = C2_repeated_iff_all_entries_equal
             [OF h, where current = reading235 and current' = reading245 and i = 0
                      and m' = entry245]
  note flips = t[THEN conjunct2, THEN conjunct2, THEN conjunct2, THEN conjunct2, THEN conjunct2]
  have f1: "\<not> isRepeated reading245 [entry235]"
  proof -
    from r d1 have "isRepeated reading235 [entry235]
                    \<and> comparedFields reading245 \<noteq> comparedFields reading235"
      by (rule conjI)
    with flips[THEN conjunct1] show ?thesis by (rule mp)
  qed
  have f2: "\<not> isRepeated reading235 ([entry235][0 := entry245])"
  proof -
    from r i d2 have "isRepeated reading235 [entry235] \<and> 0 < length [entry235]
                      \<and> parsedState entry245 \<noteq> parsedState ([entry235] ! 0)"
      by (intro conjI)
    with flips[THEN conjunct2] show ?thesis by (rule mp)
  qed
  from r f1 f2 show ?thesis by (intro conjI)
qed

section \<open>Properties of the Backoff Fetcher\<close>

lemma push_bit_one_nat: "push_bit a (1::nat) = 2 ^ a"
  by (simp add: push_bit_eq_mult)

lemma requestLoop_trace:
  "attempt < 5 \<Longrightarrow> requestLoop unmarshal net attempt st = (e, st') \<Longrightarrow>
   (\<exists>n. 1 \<le> n \<and> attempt + n \<le> 5 \<and> attempts st' = attempts st + n \<and>
        slept st' = slept st @ map (\<lambda>a. 2 ^ a) [attempt..<attempt + n - 1])"
proof (induction unmarshal net attempt st arbitrary: e st' rule: requestLoop.induct)
  case (1 unmarshal net attempt st)
  show ?case
  proof (cases "\<exists>bodyBytes out. net attempt = BodyBytes bodyBytes \<and>
                  unmarshal bodyBytes (outStruct (st\<lparr>attempts := attempts st + 1\<rparr>)) = (None, out) \<and>
                  StatusCode out = 190 \<and> attempt < 4")
    case False
    with "1.prems" have "attempts st' = attempts st + 1 \<and> slept st' = slept st"
      by (subst (asm) requestLoop.simps)
         (auto simp: Let_def split: httpResult.splits prod.splits option.splits if_splits)
    then show ?thesis using "1.prems"(1) by (intro exI[of _ 1]) simp
  next
    case True
    then obtain bodyBytes out where
      n: "net attempt = BodyBytes bodyBytes" and
      u: "unmarshal bodyBytes (outStruct (st\<lparr>attempts := attempts st + 1\<rparr>)) = (None, out)" and
      s: "StatusCode out = 190" and a: "attempt < 4" by blast
    let ?st2 = "st\<lparr>attempts := attempts st + 1, outStruct := out\<rparr>"
    let ?st3 = "?st2\<lparr>slept := slept ?st2 @ [push_bit attempt 1]\<rparr>"
    from "1.prems" n u s a
    have r: "requestLoop unmarshal net (attempt + 1) ?st3 = (e, st')"
      by (subst (asm) requestLoop.simps) (simp add: Let_def)
    have "\<exists>n. 1 \<le> n \<and> attempt + 1 + n \<le> 5 \<and> attempts st' = attempts ?st3 + n \<and>
        slept st' = slept ?st3 @ map (\<lambda>a. 2 ^ a) [attempt + 1..<attempt + 1 + n - 1]"
      using "1.IH"[OF "1.prems"(1) refl n u[symmetric] refl refl _ s a _ r] s a by simp
    then obtain n where n1: "1 \<le> n" and n5: "attempt + 1 + n \<le> 5"
      and na: "attempts st' = attempts ?st3 + n"
      and ns: "slept st' = slept ?st3 @ map (\<lambda>a. 2 ^ a) [attempt + 1..<attempt + 1 + n - 1]"
      by blast
    have "[attempt..<attempt + (n + 1) - 1] = attempt # [attempt + 1..<attempt + 1 + n - 1]"
      using n1 by (simp add: upt_conv_Cons)
    with n1 n5 na ns show ?thesis
      by (intro exI[of _ "n + 1"]) (simp add: push_bit_one_nat)
  qed
qed


lemma requestLoop_retry:
  "attempt < 4 \<Longrightarrow> net attempt = BodyBytes b \<Longrightarrow> unmarshal b (outStruct st) = (None, out) \<Longrightarrow>
   StatusCode out = 190 \<Longrightarrow>
   requestLoop unmarshal net attempt st =
     requestLoop unmarshal net (Suc attempt)
       (st\<lparr>attempts := attempts st + 1, outStruct := out, slept := slept st @ [2 ^ attempt]\<rparr>)"
  by (subst requestLoop.simps) (simp add: Let_def push_bit_one_nat)

lemma requestLoop_success:
  "attempt < 5 \<Longrightarrow> net attempt = BodyBytes b \<Longrightarrow> unmarshal b (outStruct st) = (None, out) \<Longrightarrow>
   StatusCode out = 100 \<Longrightarrow>
   requestLoop unmarshal net attempt st = (None, st\<lparr>attempts := attempts st + 1, outStruct := out\<rparr>)"
  by (subst requestLoop.simps) (simp add: Let_def)

lemma requestLoop_exhausted:
  "net 4 = BodyBytes b \<Longrightarrow> unmarshal b (outStruct st) = (None, out) \<Longrightarrow> StatusCode out = 190 \<Longrightarrow>
   requestLoop unmarshal net 4 st =
     (Some (MaxRetriesReached (Message out)), st\<lparr>attempts := attempts st + 1, outStruct := out\<rparr>)"
  by (subst requestLoop.simps) (simp add: Let_def)

text \<open>The state after \<open>k\<close> answers with status 190, \<open>out k\<close> being the struct they left.\<close>

lemma requestLoop_retries:
  assumes "\<forall>k<n. net k = BodyBytes (body k) \<and> unmarshal (body k) (out k) = (None, out (Suc k))
                  \<and> StatusCode (out (Suc k)) = 190"
    and "n \<le> 4"
  shows "requestLoop unmarshal net 0 \<lparr>outStruct = out 0, attempts = 0, slept = []\<rparr> =
         requestLoop unmarshal net n
           \<lparr>outStruct = out n, attempts = n, slept = map (\<lambda>a. 2 ^ a) [0..<n]\<rparr>"
  using assms
proof (induction n)
  case 0
  then show ?case by simp
next
  case (Suc n)
  from Suc.prems have step: "net n = BodyBytes (body n)"
    "unmarshal (body n) (out n) = (None, out (Suc n))" "StatusCode (out (Suc n)) = 190"
    and n: "n < 4" by simp_all
  from Suc.prems have "requestLoop unmarshal net 0 \<lparr>outStruct = out 0, attempts = 0, slept = []\<rparr> =
         requestLoop unmarshal net n
           \<lparr>outStruct = out n, attempts = n, slept = map (\<lambda>a. 2 ^ a) [0..<n]\<rparr>"
    by (intro Suc.IH) simp_all
  also have "\<dots> = requestLoop unmarshal net (Suc n)
           \<lparr>outStruct = out (Suc n), attempts = Suc n, slept = map (\<lambda>a. 2 ^ a) [0..<Suc n]\<rparr>"
    using requestLoop_retry[of n net "body n" unmarshal
            "\<lparr>outStruct = out n, attempts = n, slept = map (\<lambda>a. 2 ^ a) [0..<n]\<rparr>" "out (Suc n)"]
          step n
    by simp
  finally show ?case .
qed

lemma four_waits: "map (\<lambda>a. 2 ^ a) [0..<4] = [1, 2, 4, 8::nat]"
  by code_simp


text \<open>
  Claim C3: an answer with status 190 is retried after a wait of \<open>2 ^ attempt\<close> seconds, at
  most five attempts in all. When the first four answers carry status 190 and the fifth status
  100, there are exactly five attempts, the waits are 1, 2, 4 and 8 seconds, the call succeeds
  and \<open>out\<close> holds what the fifth decoding left in it. When all five answers carry status 190,
  the call fails after exactly five attempts with the error "max retries reached" carrying the
  last message. For every behaviour of the network there are between one and five attempts,
  and the waits are \<open>2 ^ 0, 2 ^ 1, \<dots>\<close>, one between each two attempts.
  (\<open>out k\<close> is the struct behind \<open>out\<close> after \<open>k\<close> decodings, \<open>out 0\<close> the struct the caller
  passes.)
\<close>

theorem C3_backoff_on_190:
  "((\<forall>k<4. net k = BodyBytes (body k) \<and> unmarshal (body k) (out k) = (None, out (Suc k))
            \<and> StatusCode (out (Suc k)) = 190)
     \<and> net 4 = BodyBytes (body 4) \<and> unmarshal (body 4) (out 4) = (None, out 5)
     \<and> StatusCode (out 5) = 100
     \<longrightarrow> requestWithBackoff unmarshal net (out 0) =
           (None, \<lparr>outStruct = out 5, attempts = 5, slept = [1, 2, 4, 8]\<rparr>))
   \<and> ((\<forall>k<5. net k = BodyBytes (body k) \<and> unmarshal (body k) (out k) = (None, out (Suc k))
               \<and> StatusCode (out (Suc k)) = 190)
     \<longrightarrow> requestWithBackoff unmarshal net (out 0) =
           (Some (MaxRetriesReached (Message (out 5))),
            \<lparr>outStruct = out 5, attempts = 5, slept = [1, 2, 4, 8]\<rparr>))
   \<and> (requestWithBackoff unmarshal net initial = (e, st)
     \<longrightarrow> 1 \<le> attempts st \<and> attempts st \<le> 5
         \<and> slept st = map (\<lambda>attempt. 2 ^ attempt) [0..<attempts st - 1])"
proof (intro conjI impI)
  assume a: "(\<forall>k<4. net k = BodyBytes (body k) \<and> unmarshal (body k) (out k) = (None, out (Suc k))
            \<and> StatusCode (out (Suc k)) = 190)
     \<and> net 4 = BodyBytes (body 4) \<and> unmarshal (body 4) (out 4) = (None, out 5)
     \<and> StatusCode (out 5) = 100"
  then have "requestLoop unmarshal net 0 \<lparr>outStruct = out 0, attempts = 0, slept = []\<rparr> =
             requestLoop unmarshal net 4 \<lparr>outStruct = out 4, attempts = 4, slept = [1, 2, 4, 8]\<rparr>"
    using requestLoop_retries[of 4 net body unmarshal out] by (simp add: four_waits)
  also have "\<dots> = (None, \<lparr>outStruct = out 5, attempts = 5, slept = [1, 2, 4, 8]\<rparr>)"
    using a requestLoop_success[of 4 net "body 4" unmarshal
            "\<lparr>outStruct = out 4, attempts = 4, slept = [1, 2, 4, 8]\<rparr>" "out 5"]
    by simp
  finally show "requestWithBackoff unmarshal net (out 0) =
           (None, \<lparr>outStruct = out 5, attempts = 5, slept = [1, 2, 4, 8]\<rparr>)"
    by (simp add: requestWithBackoff_def)
next
  assume a: "\<forall>k<5. net k = BodyBytes (body k) \<and> unmarshal (body k) (out k) = (None, out (Suc k))
               \<and> StatusCode (out (Suc k)) = 190"
  then have "requestLoop unmarshal net 0 \<lparr>outStruct = out 0, attempts = 0, slept = []\<rparr> =
             requestLoop unmarshal net 4 \<lparr>outStruct = out 4, attempts = 4, slept = [1, 2, 4, 8]\<rparr>"
    using requestLoop_retries[of 4 net body unmarshal out] by (simp add: four_waits)
  also have "\<dots> = (Some (MaxRetriesReached (Message (out 5))),
                    \<lparr>outStruct = out 5, attempts = 5, slept = [1, 2, 4, 8]\<rparr>)"
  proof -
    from a[rule_format, of 4]
    have "net 4 = BodyBytes (body 4)" "unmarshal (body 4) (out 4) = (None, out 5)"
      "StatusCode (out 5) = 190" by simp_all
    then show ?thesis
      using requestLoop_exhausted[of net "body 4" unmarshal
              "\<lparr>outStruct = out 4, attempts = 4, slept = [1, 2, 4, 8]\<rparr>" "out 5"]
      by simp
  qed
  finally show "requestWithBackoff unmarshal net (out 0) =
           (Some (MaxRetriesReached (Message (out 5))),
            \<lparr>outStruct = out 5, attempts = 5, slept = [1, 2, 4, 8]\<rparr>)"
    by (simp add: requestWithBackoff_def)
next
  assume r: "requestWithBackoff unmarshal net initial = (e, st)"
  from requestLoop_trace[OF _ r[unfolded requestWithBackoff_def]]
  obtain n where "1 \<le> n" "n \<le> 5" "attempts st = n" "slept st = map (\<lambda>a. 2 ^ a) [0..<n - 1]"
    by auto
  then show "1 \<le> attempts st" "attempts st \<le> 5"
    "slept st = map (\<lambda>attempt. 2 ^ attempt) [0..<attempts st - 1]"
    by simp_all
qed

theorem C3_backoff_on_190_witness:
  "requestWithBackoff sampleUnmarshal busyFourTimes (zeroResponse zeroStatus) =
     (None, \<lparr>outStruct = okResponse, attempts = 5, slept = [1, 2, 4, 8]\<rparr>)
   \<and> requestWithBackoff sampleUnmarshal alwaysBusy (zeroResponse zeroStatus) =
     (Some (MaxRetriesReached ''busy''), \<lparr>outStruct = busyResponse, attempts = 5, slept = [1, 2, 4, 8]\<rparr>)
   \<and> [1, 2, 4, 8::nat] = map (\<lambda>attempt. 2 ^ attempt) [0..<5 - 1]"
proof -
  have h1: "(\<forall>k<4. busyFourTimes k = BodyBytes (if k < 4 then ''busy'' else ''ok'')
                \<and> sampleUnmarshal (if k < 4 then ''busy'' else ''ok'') (outsThenOk k)
                     = (None, outsThenOk (Suc k))
                \<and> StatusCode (outsThenOk (Suc k)) = 190)
            \<and> busyFourTimes 4 = BodyBytes (if (4::nat) < 4 then ''busy'' else ''ok'')
            \<and> sampleUnmarshal (if (4::nat) < 4 then ''busy'' else ''ok'') (outsThenOk 4)
                 = (None, outsThenOk 5)
            \<and> StatusCode (outsThenOk 5) = 100"
    by (auto simp: busyFourTimes_def sampleUnmarshal_def outsThenOk_def busyResponse_def
                   okResponse_def zeroResponse_def)
  have h2: "\<forall>k<5. alwaysBusy k = BodyBytes ''busy''
                \<and> sampleUnmarshal ''busy'' (outsBusy k) = (None, outsBusy (Suc k))
                \<and> StatusCode (outsBusy (Suc k)) = 190"
    by (auto simp: alwaysBusy_def sampleUnmarshal_def outsBusy_def busyResponse_def
                   zeroResponse_def)
  note t = C3_backoff_on_190
             [where net = busyFourTimes and unmarshal = sampleUnmarshal and out = outsThenOk
                and body = "\<lambda>k. if k < 4 then ''busy'' else ''ok''"
                and initial = "zeroResponse zeroStatus" and e = None
                and st = "\<lparr>outStruct = okResponse, attempts = 5, slept = [1, 2, 4, 8]\<rparr>"]
  note t' = C3_backoff_on_190
             [where net = alwaysBusy and unmarshal = sampleUnmarshal and out = outsBusy
                and body = "\<lambda>k. ''busy''"]
  have r1: "requestWithBackoff sampleUnmarshal busyFourTimes (zeroResponse zeroStatus) =
     (None, \<lparr>outStruct = okResponse, attempts = 5, slept = [1, 2, 4, 8]\<rparr>)"
    using t[THEN conjunct1, THEN mp, OF h1] by (simp add: outsThenOk_def)
  have r2: "requestWithBackoff sampleUnmarshal alwaysBusy (zeroResponse zeroStatus) =
     (Some (MaxRetriesReached ''busy''), \<lparr>outStruct = busyResponse, attempts = 5, slept = [1, 2, 4, 8]\<rparr>)"
    using t'[THEN conjunct2, THEN conjunct1, THEN mp, OF h2]
    by (simp add: outsBusy_def busyResponse_def)
  have r3: "[1, 2, 4, 8::nat] = map (\<lambda>attempt. 2 ^ attempt) [0..<5 - 1]"
    using t[THEN conjunct2, THEN conjunct2, THEN mp, OF r1] by simp
  from r1 r2 r3 show ?thesis by (intro conjI)
qed

text \<open>
  Claim C4: when the first answer carries a status other than 100 and 190 (250, say), the
  call fails after exactly one attempt, without a wait, with the error "unexpected status"
  carrying the status and the message; when the first request cannot be built or sent, its
  body cannot be read, or the body is not JSON, the call fails after exactly one attempt,
  without a wait, with the matching wrapped error.
\<close>

theorem C4_no_retry_on_other_failures:
  "(net 0 = BodyBytes b \<and> unmarshal b initial = (None, out) \<and> StatusCode out \<noteq> 100
      \<and> StatusCode out \<noteq> 190
     \<longrightarrow> requestWithBackoff unmarshal net initial =
           (Some (UnexpectedStatusCode (StatusCode out) (Message out)),
            \<lparr>outStruct = out, attempts = 1, slept = []\<rparr>))
   \<and> (net 0 = DoFails err
     \<longrightarrow> requestWithBackoff unmarshal net initial =
           (Some (HTTPRequestFailed err), \<lparr>outStruct = initial, attempts = 1, slept = []\<rparr>))
   \<and> (net 0 = ReadAllFails err
     \<longrightarrow> requestWithBackoff unmarshal net initial =
           (Some (ReadingResponseFailed err), \<lparr>outStruct = initial, attempts = 1, slept = []\<rparr>))
   \<and> (net 0 = NewRequestFails err
     \<longrightarrow> requestWithBackoff unmarshal net initial =
           (Some (RequestCreationFailed err), \<lparr>outStruct = initial, attempts = 1, slept = []\<rparr>))
   \<and> (net 0 = BodyBytes b \<and> unmarshal b initial = (Some err, partial)
     \<longrightarrow> requestWithBackoff unmarshal net initial =
           (Some (UnmarshalFailed err b), \<lparr>outStruct = partial, attempts = 1, slept = []\<rparr>))"
  unfolding requestWithBackoff_def
  by (subst requestLoop.simps, simp add: Let_def)+

theorem C4_no_retry_on_other_failures_witness:
  "requestWithBackoff sampleUnmarshal (\<lambda>k. BodyBytes ''denied'') (zeroResponse zeroStatus) =
     (Some (UnexpectedStatusCode 250 ''denied''),
      \<lparr>outStruct = \<lparr>StatusCode = 250, Message = ''denied'', Body = zeroStatus\<rparr>,
       attempts = 1, slept = []\<rparr>)
   \<and> requestWithBackoff sampleUnmarshal (\<lambda>k. DoFails (External ''connection refused''))
       (zeroResponse zeroStatus) =
     (Some (HTTPRequestFailed (External ''connection refused'')),
      \<lparr>outStruct = zeroResponse zeroStatus, attempts = 1, slept = []\<rparr>)
   \<and> requestWithBackoff sampleUnmarshal (\<lambda>k. ReadAllFails (External ''unexpected EOF''))
       (zeroResponse zeroStatus) =
     (Some (ReadingResponseFailed (External ''unexpected EOF'')),
      \<lparr>outStruct = zeroResponse zeroStatus, attempts = 1, slept = []\<rparr>)
   \<and> requestWithBackoff sampleUnmarshal (\<lambda>k. NewRequestFails (External ''invalid URL''))
       (zeroResponse zeroStatus) =
     (Some (RequestCreationFailed (External ''invalid URL'')),
      \<lparr>outStruct = zeroResponse zeroStatus, attempts = 1, slept = []\<rparr>)
   \<and> requestWithBackoff sampleUnmarshal (\<lambda>k. BodyBytes ''broken'') (zeroResponse zeroStatus) =
     (Some (UnmarshalFailed (External ''invalid character'') ''broken''),
      \<lparr>outStruct = zeroResponse zeroStatus, attempts = 1, slept = []\<rparr>)"
proof -
  have h: "(\<lambda>k::nat. BodyBytes ''denied'') 0 = BodyBytes ''denied''
           \<and> sampleUnmarshal ''denied'' (zeroResponse zeroStatus)
               = (None, \<lparr>StatusCode = 250, Message = ''denied'', Body = zeroStatus\<rparr>)
           \<and> StatusCode \<lparr>StatusCode = 250, Message = ''denied'', Body = zeroStatus\<rparr> \<noteq> 100
           \<and> StatusCode \<lparr>StatusCode = 250, Message = ''denied'', Body = zeroStatus\<rparr> \<noteq> 190"
    by (simp add: sampleUnmarshal_def zeroResponse_def)
  have g: "(\<lambda>k::nat. BodyBytes ''broken'') 0 = BodyBytes ''broken''
           \<and> sampleUnmarshal ''broken'' (zeroResponse zeroStatus)
               = (Some (External ''invalid character''), zeroResponse zeroStatus)"
    by (simp add: sampleUnmarshal_def)
  have r1: "requestWithBackoff sampleUnmarshal (\<lambda>k. BodyBytes ''denied'') (zeroResponse zeroStatus) =
     (Some (UnexpectedStatusCode 250 ''denied''),
      \<lparr>outStruct = \<lparr>StatusCode = 250, Message = ''denied'', Body = zeroStatus\<rparr>,
       attempts = 1, slept = []\<rparr>)"
    using C4_no_retry_on_other_failures
            [where net = "\<lambda>k. BodyBytes ''denied''" and unmarshal = sampleUnmarshal
               and b = "''denied''" and initial = "zeroResponse zeroStatus"
               and out = "\<lparr>StatusCode = 250, Message = ''denied'', Body = zeroStatus\<rparr>",
             THEN conjunct1, rule_format, OF h]
    by simp
  have r2: "requestWithBackoff sampleUnmarshal (\<lambda>k. DoFails (External ''connection refused''))
       (zeroResponse zeroStatus) =
     (Some (HTTPRequestFailed (External ''connection refused'')),
      \<lparr>outStruct = zeroResponse zeroStatus, attempts = 1, slept = []\<rparr>)"
    by (rule C4_no_retry_on_other_failures[THEN conjunct2, THEN conjunct1, rule_format]) simp
  have r3: "requestWithBackoff sampleUnmarshal (\<lambda>k. ReadAllFails (External ''unexpected EOF''))
       (zeroResponse zeroStatus) =
     (Some (ReadingResponseFailed (External ''unexpected EOF'')),
      \<lparr>outStruct = zeroResponse zeroStatus, attempts = 1, slept = []\<rparr>)"
    by (rule C4_no_retry_on_other_failures
               [THEN conjunct2, THEN conjunct2, THEN conjunct1, rule_format]) simp
  have r4: "requestWithBackoff sampleUnmarshal (\<lambda>k. NewRequestFails (External ''invalid URL''))
       (zeroResponse zeroStatus) =
     (Some (RequestCreationFailed (External ''invalid URL'')),
      \<lparr>outStruct = zeroResponse zeroStatus, attempts = 1, slept = []\<rparr>)"
    by (rule C4_no_retry_on_other_failures
               [THEN conjunct2, THEN conjunct2, THEN conjunct2, THEN conjunct1, rule_format]) simp
  have r5: "requestWithBackoff sampleUnmarshal (\<lambda>k. BodyBytes ''broken'') (zeroResponse zeroStatus) =
     (Some (UnmarshalFailed (External ''invalid character'') ''broken''),
      \<lparr>outStruct = zeroResponse zeroStatus, attempts = 1, slept = []\<rparr>)"
    using C4_no_retry_on_other_failures
            [where net = "\<lambda>k. BodyBytes ''broken''" and unmarshal = sampleUnmarshal
               and b = "''broken''" and initial = "zeroResponse zeroStatus"
               and err = "External ''invalid character''"
               and partial = "zeroResponse zeroStatus",
             THEN conjunct2, THEN conjunct2, THEN conjunct2, THEN conjunct2, rule_format, OF g]
    by simp
  from r1 r2 r3 r4 r5 show ?thesis by (intro conjI)
qed

section \<open>Properties of the Message Composer\<close>

lemma composeMessage_eq:
  "composeMessage device posts status =
     Inr (headerLine device posts status @ [CHR 0x0A] @ fieldLines status)"
  by (simp add: composeMessage_def batteryStatusEmoji_def extractRecentMessagesForDevice_eq
                headerLine_def fieldLines_def temperatureLine_def humidityLine_def co2Line_def
                co2Tier_def Let_def
           split: option.splits)

text \<open>
  Claim C6: the header of the composed message carries the battery suffix, an opening
  parenthesis after a blank, the symbol, the figure and a percent sign with the closing
  parenthesis, exactly when the reading has a battery figure; the symbol is the warning symbol
  when the Duplicate Detector answers "repeated" for the entries \<open>extractRecentMessagesForDevice\<close>
  finds for the device, and the battery symbol otherwise. Without a battery figure the header
  has no suffix, and the message is the same whatever the recent posts are: the duplicate check
  plays no part.
\<close>

theorem C6_battery_suffix:
  "composeMessage device posts status =
     Inr (makeDeviceHeader (DeviceName device) @
          (case Battery status of
             None \<Rightarrow> []
           | Some battery \<Rightarrow>
               '' ('' @ (if isRepeated status (matchingEntries (DeviceName device) posts)
                         then warningEmoji else batteryEmoji) @ fmt_d battery @ ''%)'') @
          [CHR 0x0A] @ fieldLines status)
   \<and> extractRecentMessagesForDevice (DeviceName device) posts
       = Inr (matchingEntries (DeviceName device) posts)
   \<and> (Battery status = None
        \<longrightarrow> composeMessage device posts' status = composeMessage device posts status)"
  by (simp add: composeMessage_eq headerLine_def extractRecentMessagesForDevice_eq)

theorem C6_battery_suffix_witness:
  "composeMessage livingRoom [\<lparr>Content = entry235\<rparr>] reading235 = composeMessage livingRoom [] reading235
   \<and> composeMessage livingRoom [] reading235 = Inr entry235"
proof -
  have h: "Battery reading235 = None" by (simp add: reading235_def)
  have "composeMessage livingRoom [\<lparr>Content = entry235\<rparr>] reading235
        = composeMessage livingRoom [] reading235"
    using C6_battery_suffix[where status = reading235 and posts = "[]"
                              and posts' = "[\<lparr>Content = entry235\<rparr>]" and device = livingRoom,
                            THEN conjunct2, THEN conjunct2, THEN mp, OF h] .
  moreover have "composeMessage livingRoom [] reading235 = Inr entry235"
    by code_simp
  ultimately show ?thesis by (intro conjI)
qed

text \<open>
  Claim C7: behind the header line the composed message has one line for each field that is
  present, in the order temperature, humidity, CO2, and none for a field that is absent. The
  icon on the CO2 line is the alert icon from 1500 ppm, the caution icon from 1000 ppm and
  below 1500 ppm, and the normal icon below 1000 ppm. A reading without any field still gives
  the header line.
\<close>

theorem C7_field_lines:
  "composeMessage device posts status =
     Inr (headerLine device posts status @ [CHR 0x0A] @
          (case Temperature status of None \<Rightarrow> [] | Some t \<Rightarrow> temperatureLine t) @
          (case Humidity status of None \<Rightarrow> [] | Some h \<Rightarrow> humidityLine h) @
          (case CO2 status of None \<Rightarrow> [] | Some c \<Rightarrow> co2Line c))
   \<and> (1500 \<le> c \<longrightarrow> co2Line c = ''CO2: '' @ fmt_d c @ ''ppm '' @ alertIcon @ [CHR 0x0A])
   \<and> (1000 \<le> c \<and> c < 1500
        \<longrightarrow> co2Line c = ''CO2: '' @ fmt_d c @ ''ppm '' @ cautionIcon @ [CHR 0x0A])
   \<and> (c < 1000 \<longrightarrow> co2Line c = ''CO2: '' @ fmt_d c @ ''ppm '' @ normalIcon @ [CHR 0x0A])
   \<and> (Battery status = None \<and> Temperature status = None \<and> Humidity status = None
       \<and> CO2 status = None
        \<longrightarrow> composeMessage device posts status
            = Inr (makeDeviceHeader (DeviceName device) @ [CHR 0x0A]))"
  by (simp add: composeMessage_eq fieldLines_def co2Line_def co2Tier_def headerLine_def)

theorem C7_field_lines_witness:
  "co2Line 1600 = ''CO2: 1600ppm '' @ alertIcon @ [CHR 0x0A]
   \<and> co2Line 1250 = ''CO2: 1250ppm '' @ cautionIcon @ [CHR 0x0A]
   \<and> co2Line 800 = ''CO2: 800ppm '' @ normalIcon @ [CHR 0x0A]
   \<and> composeMessage livingRoom [] zeroStatus = Inr (''# Living Room'' @ [CHR 0x0A])"
proof -
  have d: "fmt_d 1600 = ''1600''" "fmt_d 1250 = ''1250''" "fmt_d 800 = ''800''"
    by code_simp+
  have z: "Battery zeroStatus = None \<and> Temperature zeroStatus = None
           \<and> Humidity zeroStatus = None \<and> CO2 zeroStatus = None"
    by (simp add: zeroStatus_def)
  have r1: "co2Line 1600 = ''CO2: 1600ppm '' @ alertIcon @ [CHR 0x0A]"
    using C7_field_lines[where c = 1600, THEN conjunct2, THEN conjunct1] d by simp
  have r2: "co2Line 1250 = ''CO2: 1250ppm '' @ cautionIcon @ [CHR 0x0A]"
    using C7_field_lines[where c = 1250, THEN conjunct2, THEN conjunct2, THEN conjunct1] d
    by simp
  have r3: "co2Line 800 = ''CO2: 800ppm '' @ normalIcon @ [CHR 0x0A]"
    using C7_field_lines
            [where c = 800, THEN conjunct2, THEN conjunct2, THEN conjunct2, THEN conjunct1] d
    by simp
  have r4: "composeMessage livingRoom [] zeroStatus = Inr (''# Living Room'' @ [CHR 0x0A])"
    using C7_field_lines
            [where device = livingRoom and posts = "[]" and status = zeroStatus,
             THEN conjunct2, THEN conjunct2, THEN conjunct2, THEN conjunct2, THEN mp, OF z]
    by (simp add: makeDeviceHeader_def livingRoom_def)
  from r1 r2 r3 r4 show ?thesis by (intro conjI)
qed

section \<open>Properties of the error paths of a device\<close>

lemma PutMetric_only_logged:
  "fetchDeviceStatus (unmarshalStatus env) (statusNet env) device = Inr status \<Longrightarrow>
   generateStatusMessage env device posts =
     (composeMessage device posts status,
      case PutMetric (loadAWS env) (putData env) device status of
        Some err \<Rightarrow> [LogMetricsFailed err] | None \<Rightarrow> [])"
  by (simp add: generateStatusMessage_def)

text \<open>
  Claim C10: \<open>extractRecentMessagesForDevice\<close> never returns an error, so
  \<open>batteryStatusEmoji\<close> never fails, and \<open>generateStatusMessage\<close> returns an error exactly
  when \<open>fetchDeviceStatus\<close> does (and then the same error). A failure of \<open>PutMetric\<close> is
  written to the log and the message is composed all the same.
\<close>

theorem C10_error_sources:
  "(\<exists>entries. extractRecentMessagesForDevice deviceName posts = Inr entries)
   \<and> (\<exists>emoji. batteryStatusEmoji device posts status = Inr emoji)
   \<and> ((\<exists>err. fst (generateStatusMessage env device posts) = Inl err)
        \<longleftrightarrow> (\<exists>err. fetchDeviceStatus (unmarshalStatus env) (statusNet env) device = Inl err))
   \<and> (fetchDeviceStatus (unmarshalStatus env) (statusNet env) device = Inl err
        \<longrightarrow> generateStatusMessage env device posts = (Inl err, []))
   \<and> (fetchDeviceStatus (unmarshalStatus env) (statusNet env) device = Inr fetched
       \<and> PutMetric (loadAWS env) (putData env) device fetched = Some failure
        \<longrightarrow> (\<exists>message. generateStatusMessage env device posts
                          = (Inr message, [LogMetricsFailed failure])))"
proof (intro conjI impI)
  show "\<exists>entries. extractRecentMessagesForDevice deviceName posts = Inr entries"
    by (simp add: extractRecentMessagesForDevice_def)
  show "\<exists>emoji. batteryStatusEmoji device posts status = Inr emoji"
    by (simp add: batteryStatusEmoji_def extractRecentMessagesForDevice_def)
  show "(\<exists>err. fst (generateStatusMessage env device posts) = Inl err)
        \<longleftrightarrow> (\<exists>err. fetchDeviceStatus (unmarshalStatus env) (statusNet env) device = Inl err)"
    by (cases "fetchDeviceStatus (unmarshalStatus env) (statusNet env) device")
       (simp_all add: generateStatusMessage_def composeMessage_eq)
  show "generateStatusMessage env device posts = (Inl err, [])"
    if "fetchDeviceStatus (unmarshalStatus env) (statusNet env) device = Inl err"
    using that by (simp add: generateStatusMessage_def)
  show "\<exists>message. generateStatusMessage env device posts
                          = (Inr message, [LogMetricsFailed failure])"
    if "fetchDeviceStatus (unmarshalStatus env) (statusNet env) device = Inr fetched
       \<and> PutMetric (loadAWS env) (putData env) device fetched = Some failure"
    using that by (simp add: generateStatusMessage_def composeMessage_eq)
qed

lemma fetchDeviceStatus_first_ok:
  "net 0 = BodyBytes b \<Longrightarrow> unmarshal b (zeroResponse zeroStatus) = (None, out) \<Longrightarrow>
   StatusCode out = 100 \<Longrightarrow> fetchDeviceStatus unmarshal net device = Inr (Body out)"
  using requestLoop_success[of 0 net b unmarshal
          "\<lparr>outStruct = zeroResponse zeroStatus, attempts = 0, slept = []\<rparr>" out]
  by (simp add: fetchDeviceStatus_def requestWithBackoff_def)

lemma fetchDeviceStatus_first_fails:
  "net 0 = DoFails err \<Longrightarrow>
   fetchDeviceStatus unmarshal net device = Inl (HTTPRequestFailed err)"
  by (simp add: fetchDeviceStatus_def requestWithBackoff_def requestLoop.simps[of _ _ 0] Let_def)

theorem C10_error_sources_witness:
  "generateStatusMessage (sampleDeviceEnv\<lparr>statusNet := (\<lambda>k. DoFails (External ''timeout''))\<rparr>)
     livingRoom []
     = (Inl (HTTPRequestFailed (External ''timeout'')), [])
   \<and> (\<exists>message. generateStatusMessage (sampleDeviceEnv\<lparr>loadAWS := Some (External ''no credentials'')\<rparr>)
                    livingRoom []
          = (Inr message, [LogMetricsFailed (LoadAWSConfigFailed (External ''no credentials''))]))"
proof -
  let ?failing = "sampleDeviceEnv\<lparr>statusNet := (\<lambda>k. DoFails (External ''timeout''))\<rparr>"
  let ?noAWS = "sampleDeviceEnv\<lparr>loadAWS := Some (External ''no credentials'')\<rparr>"
  have f: "fetchDeviceStatus (unmarshalStatus ?failing) (statusNet ?failing) livingRoom
           = Inl (HTTPRequestFailed (External ''timeout''))"
    by (simp add: fetchDeviceStatus_first_fails)
  have g: "fetchDeviceStatus (unmarshalStatus ?noAWS) (statusNet ?noAWS) livingRoom
             = Inr reading235
           \<and> PutMetric (loadAWS ?noAWS) (putData ?noAWS) livingRoom reading235
             = Some (LoadAWSConfigFailed (External ''no credentials''))"
    using fetchDeviceStatus_first_ok[of "\<lambda>k. BodyBytes ''ok''" "''ok''" sampleUnmarshal
            "(zeroResponse zeroStatus)\<lparr>StatusCode := 100, Message := ''success'', Body := reading235\<rparr>"
            livingRoom]
    by (simp add: sampleDeviceEnv_def sampleUnmarshal_def PutMetric_def)
  note t = C10_error_sources[where env = ?failing and device = livingRoom and posts = "[]"
             and err = "HTTPRequestFailed (External ''timeout'')"]
  note t' = C10_error_sources[where env = ?noAWS and device = livingRoom and posts = "[]"
             and fetched = reading235
             and failure = "LoadAWSConfigFailed (External ''no credentials'')"]
  have r1: "generateStatusMessage ?failing livingRoom []
            = (Inl (HTTPRequestFailed (External ''timeout'')), [])"
    using t[THEN conjunct2, THEN conjunct2, THEN conjunct2, THEN conjunct1, THEN mp, OF f] .
  have r2: "\<exists>message. generateStatusMessage ?noAWS livingRoom []
          = (Inr message, [LogMetricsFailed (LoadAWSConfigFailed (External ''no credentials''))])"
    using t'[THEN conjunct2, THEN conjunct2, THEN conjunct2, THEN conjunct2, THEN mp, OF g] .
  from r1 r2 show ?thesis by (intro conjI)
qed

section \<open>Properties of the Pipeline Orchestrator\<close>

lemma deviceLoop_messages:
  "messages (deviceLoop env posts i devices st) = messages st @ producedMessages env posts i devices"
proof (induction devices arbitrary: i st)
  case Nil
  then show ?case by (simp add: producedMessages_def List.map_filter_simps)
next
  case (Cons d ds)
  have e: "List.enumerate i (d # ds) = (i, d) # List.enumerate (i + 1) ds" by simp
  show ?case
    by (cases "generateStatusMessage (deviceEnvs env i) d posts";
        cases "fst (generateStatusMessage (deviceEnvs env i) d posts)")
       (simp_all add: Cons.IH producedMessages_def List.map_filter_simps)
qed

lemma deviceLoop_published:
  "published (deviceLoop env posts i devices st) = published st"
  by (induction devices arbitrary: i st) (auto split: prod.splits sum.splits)

lemma producedMessages_no_target:
  "(\<forall>d\<in>set devices. \<not> isTargetDevice (DeviceType d)) \<Longrightarrow>
   deviceLoop env posts i devices st = st"
  by (induction devices arbitrary: i) auto

text \<open>
  Claim C8: in every run \<open>postToMastodon\<close> is called exactly when at least one message was
  produced, once, with the messages joined by newlines. When the configuration, the directory
  and the recent posts were obtained, the messages are those composed for the devices of a
  recognized type whose \<open>generateStatusMessage\<close> succeeded; when there is none, nothing is
  published and the run ends without error; when there is one, the run returns what
  \<open>postToMastodon\<close> returns; and when no device of the directory has a recognized type, the
  run ends without error, without a message, a log line or a publish call.
\<close>

theorem C8_publish_iff_messages:
  "published (snd (handler env)) =
     (if messages (snd (handler env)) = [] then []
      else [strings_Join (messages (snd (handler env))) [CHR 0x0A]])
   \<and> (loadConfigResult env = None
       \<and> fetchDevices (unmarshalDevices env) (devicesNet env) = Inr devices
       \<and> recentPostsResult env = Inr posts
        \<longrightarrow> messages (snd (handler env)) = producedMessages env posts 0 devices
          \<and> (producedMessages env posts 0 devices = []
               \<longrightarrow> fst (handler env) = None \<and> published (snd (handler env)) = [])
          \<and> (producedMessages env posts 0 devices \<noteq> []
               \<longrightarrow> fst (handler env)
                   = postToMastodon env (strings_Join (producedMessages env posts 0 devices) [CHR 0x0A]))
          \<and> ((\<forall>d\<in>set devices. \<not> isTargetDevice (DeviceType d))
               \<longrightarrow> handler env = (None, emptyRun)))"
proof (intro conjI impI)
  show "published (snd (handler env)) =
     (if messages (snd (handler env)) = [] then []
      else [strings_Join (messages (snd (handler env))) [CHR 0x0A]])"
    by (simp add: handler_def emptyRun_def deviceLoop_published Let_def
             split: option.splits sum.splits)
next
  assume a: "loadConfigResult env = None
       \<and> fetchDevices (unmarshalDevices env) (devicesNet env) = Inr devices
       \<and> recentPostsResult env = Inr posts"
  have m: "messages (deviceLoop env posts 0 devices emptyRun) = producedMessages env posts 0 devices"
    by (simp add: deviceLoop_messages emptyRun_def)
  show "messages (snd (handler env)) = producedMessages env posts 0 devices"
    using a m by (simp add: handler_def Let_def split: option.splits)
  show "fst (handler env) = None" if "producedMessages env posts 0 devices = []"
    using a m that by (simp add: handler_def Let_def)
  show "published (snd (handler env)) = []" if "producedMessages env posts 0 devices = []"
    using a m that by (simp add: handler_def Let_def deviceLoop_published emptyRun_def)
  show "fst (handler env)
          = postToMastodon env (strings_Join (producedMessages env posts 0 devices) [CHR 0x0A])"
    if "producedMessages env posts 0 devices \<noteq> []"
    using a m that by (simp add: handler_def Let_def split: option.splits)
  show "handler env = (None, emptyRun)"
    if "\<forall>d\<in>set devices. \<not> isTargetDevice (DeviceType d)"
    using a producedMessages_no_target[OF that, of env posts 0 emptyRun]
    by (simp add: handler_def Let_def emptyRun_def)
qed

lemma fetchDevices_first_ok:
  "net 0 = BodyBytes b \<Longrightarrow> unmarshal b (zeroResponse \<lparr>DeviceList = []\<rparr>) = (None, out) \<Longrightarrow>
   StatusCode out = 100 \<Longrightarrow> fetchDevices unmarshal net = Inr (DeviceList (Body out))"
  using requestLoop_success[of 0 net b unmarshal
          "\<lparr>outStruct = zeroResponse \<lparr>DeviceList = []\<rparr>, attempts = 0, slept = []\<rparr>" out]
  by (simp add: fetchDevices_def requestWithBackoff_def)

lemma sample_fetchDevices:
  "fetchDevices (unmarshalDevices (sampleHandlerEnv devices)) (devicesNet (sampleHandlerEnv devices))
     = Inr devices"
  using fetchDevices_first_ok[of "\<lambda>k. BodyBytes ''list''" "''list''"
          "unmarshalDevices (sampleHandlerEnv devices)"
          "(zeroResponse \<lparr>DeviceList = []\<rparr>)\<lparr>StatusCode := 100, Message := ''success'',
              Body := \<lparr>DeviceList = devices\<rparr>\<rparr>"]
  by (simp add: sampleHandlerEnv_def)

lemma sample_generateStatusMessage:
  "generateStatusMessage sampleDeviceEnv livingRoom [] = (Inr entry235, [])"
proof -
  have "fetchDeviceStatus (unmarshalStatus sampleDeviceEnv) (statusNet sampleDeviceEnv) livingRoom
          = Inr reading235"
    using fetchDeviceStatus_first_ok[of "\<lambda>k. BodyBytes ''ok''" "''ok''" sampleUnmarshal
            "(zeroResponse zeroStatus)\<lparr>StatusCode := 100, Message := ''success'', Body := reading235\<rparr>"
            livingRoom]
    by (simp add: sampleDeviceEnv_def sampleUnmarshal_def)
  moreover have "composeMessage livingRoom [] reading235 = Inr entry235"
    by code_simp
  moreover have "PutMetric (loadAWS sampleDeviceEnv) (putData sampleDeviceEnv) livingRoom reading235
                 = None"
    by (simp add: PutMetric_def sampleDeviceEnv_def reading235_def)
  ultimately show ?thesis
    by (simp add: PutMetric_only_logged)
qed

theorem C8_publish_iff_messages_witness:
  "published (snd (handler (sampleHandlerEnv [livingRoom]))) = [entry235]
   \<and> fst (handler (sampleHandlerEnv [livingRoom])) = None
   \<and> handler (sampleHandlerEnv [\<lparr>DeviceID = ''P'', DeviceType = ''Plug'', DeviceName = ''Desk''\<rparr>])
       = (None, emptyRun)"
proof -
  let ?plug = "\<lparr>DeviceID = ''P'', DeviceType = ''Plug'', DeviceName = ''Desk''\<rparr>"
  have a: "loadConfigResult (sampleHandlerEnv [livingRoom]) = None
       \<and> fetchDevices (unmarshalDevices (sampleHandlerEnv [livingRoom]))
            (devicesNet (sampleHandlerEnv [livingRoom])) = Inr [livingRoom]
       \<and> recentPostsResult (sampleHandlerEnv [livingRoom]) = Inr []"
    by (simp add: sample_fetchDevices) (simp add: sampleHandlerEnv_def)
  have b: "loadConfigResult (sampleHandlerEnv [?plug]) = None
       \<and> fetchDevices (unmarshalDevices (sampleHandlerEnv [?plug]))
            (devicesNet (sampleHandlerEnv [?plug])) = Inr [?plug]
       \<and> recentPostsResult (sampleHandlerEnv [?plug]) = Inr []"
    by (simp add: sample_fetchDevices) (simp add: sampleHandlerEnv_def)
  have p: "producedMessages (sampleHandlerEnv [livingRoom]) [] 0 [livingRoom] = [entry235]"
    by (simp add: producedMessages_def List.map_filter_simps isTargetDevice_def
                  targetDeviceTypes_def livingRoom_def[THEN arg_cong, of DeviceType]
                  sample_generateStatusMessage
                  sampleHandlerEnv_def[THEN arg_cong, of deviceEnvs])
  have n: "\<forall>d\<in>set [?plug]. \<not> isTargetDevice (DeviceType d)"
    by (simp add: isTargetDevice_def targetDeviceTypes_def)
  note t = C8_publish_iff_messages
             [where env = "sampleHandlerEnv [livingRoom]" and devices = "[livingRoom]"
                and posts = "[]"]
  note u = C8_publish_iff_messages
             [where env = "sampleHandlerEnv [?plug]" and devices = "[?plug]" and posts = "[]"]
  note t2 = t[THEN conjunct2, THEN mp, OF a]
  have m: "messages (snd (handler (sampleHandlerEnv [livingRoom]))) = [entry235]"
    using t2[THEN conjunct1] p by simp
  have r1: "published (snd (handler (sampleHandlerEnv [livingRoom]))) = [entry235]"
    using t[THEN conjunct1] m by simp
  have r2: "fst (handler (sampleHandlerEnv [livingRoom])) = None"
    using t2[THEN conjunct2, THEN conjunct2, THEN conjunct1] p
    by (simp add: sampleHandlerEnv_def)
  have r3: "handler (sampleHandlerEnv [?plug]) = (None, emptyRun)"
    using u[THEN conjunct2, THEN mp, OF b, THEN conjunct2, THEN conjunct2, THEN conjunct2,
            THEN mp, OF n] .
  from r1 r2 r3 show ?thesis by (intro conjI)
qed

section \<open>Further properties of the History Parser\<close>

text \<open>
  Claim C9: the entries \<open>extractRecentMessagesForDevice\<close> returns are, for each post whose
  text stripped of its tags contains the header token of the device as a substring, the suffix
  of that text from the first occurrence of the token; a post without the token contributes
  nothing. So a post about the device "Room 2" gives an entry for the device "Room", and in a
  post with several devices the entry of the device "Hall", which has no figure of its own,
  runs on into the section of the living room, whose temperature and humidity are then parsed
  as those of the hall.
\<close>

theorem C9_history_entries:
  "extractRecentMessagesForDevice deviceName posts = Inr (matchingEntries deviceName posts)
   \<and> ((firstOccurrenceSuffix h t = None) = (\<not> sublist h t))
   \<and> extractRecentMessagesForDevice ''Room'' [\<lparr>Content = ''<p># Room 2<br />CO2: 800ppm</p>''\<rparr>]
       = Inr [''# Room 2CO2: 800ppm'']
   \<and> extractRecentMessagesForDevice ''Hall'' [combinedPost]
       = Inr [''# Hall# Living Room'' @ temperatureLabel @ '': 23.5'' @ degreeSuffix @
              humidityLabel @ '': 45.5%'']
   \<and> parsedState (''# Hall# Living Room'' @ temperatureLabel @ '': 23.5'' @ degreeSuffix @
                    humidityLabel @ '': 45.5%'')
       = (Some (47 / 2), Some (91 / 2), None)"
proof (intro conjI)
  show "extractRecentMessagesForDevice deviceName posts = Inr (matchingEntries deviceName posts)"
    by (rule extractRecentMessagesForDevice_eq)
  show "(firstOccurrenceSuffix h t = None) = (\<not> sublist h t)"
    by (rule firstOccurrenceSuffix_None)
  show "extractRecentMessagesForDevice ''Room'' [\<lparr>Content = ''<p># Room 2<br />CO2: 800ppm</p>''\<rparr>]
       = Inr [''# Room 2CO2: 800ppm'']"
    by code_simp
  show "extractRecentMessagesForDevice ''Hall'' [combinedPost]
       = Inr [''# Hall# Living Room'' @ temperatureLabel @ '': 23.5'' @ degreeSuffix @
              humidityLabel @ '': 45.5%'']"
    by code_simp
  show "parsedState (''# Hall# Living Room'' @ temperatureLabel @ '': 23.5'' @ degreeSuffix @
                    humidityLabel @ '': 45.5%'')
       = (Some (47 / 2), Some (91 / 2), None)"
    by code_simp
qed

text \<open>
  Claim C5 at a negative temperature. The Message Composer writes a reading of -5.0 degrees
  with its sign; the group \<open>[\d.]+\<close> of the temperature pattern does not admit the sign, so
  the History Parser finds no temperature in the very message composed from the reading. The
  reading is then not classified as repeated against its own message, and its battery figure
  gets the battery symbol where the claim requires the warning symbol.
\<close>

theorem C5_negative_temperature_not_recovered:
  "composeMessage balcony [] readingMinus5 = Inr entryMinus5
   \<and> extractRecentMessagesForDevice (DeviceName balcony) [\<lparr>Content = entryMinus5\<rparr>]
       = Inr [entryMinus5]
   \<and> parsedState entryMinus5 = (None, Some (91 / 2), None)
   \<and> \<not> isRepeated readingMinus5 [entryMinus5]
   \<and> batteryStatusEmoji balcony [\<lparr>Content = entryMinus5\<rparr>] readingMinus5 = Inr batteryEmoji"
proof (intro conjI)
  show "composeMessage balcony [] readingMinus5 = Inr entryMinus5" by code_simp
  show "extractRecentMessagesForDevice (DeviceName balcony) [\<lparr>Content = entryMinus5\<rparr>]
       = Inr [entryMinus5]" by code_simp
  show "parsedState entryMinus5 = (None, Some (91 / 2), None)" by code_simp
  show "\<not> isRepeated readingMinus5 [entryMinus5]" by code_simp
  show "batteryStatusEmoji balcony [\<lparr>Content = entryMinus5\<rparr>] readingMinus5 = Inr batteryEmoji"
    by code_simp
qed

text \<open>
  The decimal strings 23.50 and 23.5 parse to the same number, 23.5 and 23.6 to different
  ones.
\<close>

lemma decimal_parsing_examples:
  "ParseFloat ''23.50'' = ParseFloat ''23.5'' \<and> ParseFloat ''23.5'' \<noteq> ParseFloat ''23.6''"
  by code_simp

end
